theory Spec2Isabelle
  imports Complex_Main "HOL-Library.AList"
begin

section \<open>JavaScript values as the Magento2Api adapter sees them\<close>

text \<open>
  Backend payloads are parsed JSON; the adapter adds \<open>undefined\<close> when it copies an
  absent property. A plain object is an association list in insertion order.
  Numbers are rationals: the adapter only tests them for truthiness and for
  \<open>=== 0\<close>. \<open>NaN\<close>, which JSON cannot carry and only \<open>parseFloat\<close> can produce, is not
  told apart from the other numbers; no test of the adapter is applied to a parsed price.
\<close>

datatype json =
    JUndef
  | JNull
  | JBool bool
  | JNum rat
  | JStr string
  | JArr "json list"
  | JObj "(string \<times> json) list"

type_synonym obj = "(string \<times> json) list"

text \<open>
  What a \<open>throw\<close> carries. \<open>TypeError\<close> is raised by the runtime (property of
  \<open>null\<close>/\<open>undefined\<close>, call of a non-function, strict-mode assignment to a
  primitive: class bodies are strict code). \<open>Thrown\<close> is an error object with the
  fields the handlers inspect and set. \<open>Unmodelled\<close> marks the one operation this
  value model cannot express: a named property assigned to an array.
\<close>

record jserror =
  statusCode :: "int option"
  message :: string
  code :: "string option"
  userMessage :: bool
  noLogging :: bool

datatype exn = TypeError | Thrown jserror | Unmodelled

text \<open>JavaScript truthiness.\<close>

fun truthy :: "json \<Rightarrow> bool" where
  "truthy JUndef = False"
| "truthy JNull = False"
| "truthy (JBool b) = b"
| "truthy (JNum n) = (n \<noteq> 0)"
| "truthy (JStr s) = (s \<noteq> [])"
| "truthy (JArr xs) = True"
| "truthy (JObj kvs) = True"

fun isArray :: "json \<Rightarrow> bool" where
  "isArray (JArr xs) = True"
| "isArray v = False"

text \<open>
  \<open>a === b\<close>. Primitives compare by value. Objects and arrays compare by reference;
  two values read from different properties of a parsed payload are never the same
  reference.
\<close>

fun strictEq :: "json \<Rightarrow> json \<Rightarrow> bool" where
  "strictEq (JArr xs) b = False"
| "strictEq (JObj kvs) b = False"
| "strictEq a b = (a = b)"

text \<open>Own properties of a plain object: read (\<open>undefined\<close> when absent), write, delete.\<close>

definition getOwn :: "obj \<Rightarrow> string \<Rightarrow> json" where
  "getOwn kvs k = (case map_of kvs k of None \<Rightarrow> JUndef | Some v \<Rightarrow> v)"

definition setOwn :: "string \<Rightarrow> json \<Rightarrow> obj \<Rightarrow> obj" where
  "setOwn k v kvs = AList.update k v kvs"

definition deleteOwn :: "string \<Rightarrow> obj \<Rightarrow> obj" where
  "deleteOwn k kvs = AList.delete k kvs"

text \<open>
  \<open>v.k\<close> for a value of any shape, for the property names this adapter reads (none of
  them is a built-in property of strings, arrays, numbers or booleans).
\<close>

fun getProp :: "json \<Rightarrow> string \<Rightarrow> exn + json" where
  "getProp JUndef k = Inl TypeError"
| "getProp JNull k = Inl TypeError"
| "getProp (JObj kvs) k = Inr (getOwn kvs k)"
| "getProp v k = Inr JUndef"

text \<open>
  The functions the adapter calls but does not define: \<open>convertKeys\<close> is inherited
  from the base class Magento2ApiBase, which lives in a module of its own; the others are
  library or runtime functions. They are parameters of the model.
  \<^item> \<open>convertKeys\<close>: callers discard its result (\<open>this.convertKeys(cartItem)\<close>) as well as
    use it, so for an object it renames keys in place and returns its argument; the value
    it returns is the new value of that object.
  \<^item> \<open>toStr\<close>: the runtime's string coercion of a value that is not a string.
  \<^item> \<open>tokenExpiration\<close>: \<open>addMinutes(Date.now(), validTime * 60 - 1).getTime()\<close> as a
    function of \<open>validTime\<close>.
\<close>

record externals =
  convertKeys :: "json \<Rightarrow> json"
  stripHtml :: "json \<Rightarrow> json"
  toStr :: "json \<Rightarrow> string"
  qsStringify :: "json \<Rightarrow> string"
  jsonParse :: "string \<Rightarrow> exn + json"
  parseFloat :: "json \<Rightarrow> json"
  tokenExpiration :: "json \<Rightarrow> json"

definition strOf :: "externals \<Rightarrow> json \<Rightarrow> string" where
  "strOf X v = (case v of JStr s \<Rightarrow> s | _ \<Rightarrow> toStr X v)"

text \<open>A response of the REST layer: the adapter only touches its \<open>data\<close>.\<close>

record response =
  data :: json

section \<open>Response converters\<close>

subsection \<open>convertAttributesSet\<close>

text \<open>
  The \<open>forEach\<close> loop \<open>attributesSet[attribute.attribute_code] = attribute.value\<close>.
\<close>

fun addAttributes :: "externals \<Rightarrow> json list \<Rightarrow> obj \<Rightarrow> exn + obj" where
  "addAttributes X [] attributesSet = Inr attributesSet"
| "addAttributes X (attribute # rest) attributesSet =
     (case getProp attribute ''attribute_code'' of
        Inl e \<Rightarrow> Inl e
      | Inr c \<Rightarrow>
          (case getProp attribute ''value'' of
             Inl e \<Rightarrow> Inl e
           | Inr v \<Rightarrow> addAttributes X rest (setOwn (strOf X c) v attributesSet)))"

text \<open>
  \<open>const { custom_attributes: attributes = [] } = data\<close>: the default applies when the
  property is absent or \<open>undefined\<close>.
\<close>

definition convertAttributesSet :: "externals \<Rightarrow> response \<Rightarrow> exn + response" where
  "convertAttributesSet X response =
     (case data response of
        JUndef \<Rightarrow> Inl TypeError
      | JNull \<Rightarrow> Inl TypeError
      | JObj d \<Rightarrow>
          (case (case getOwn d ''custom_attributes'' of JUndef \<Rightarrow> JArr [] | a \<Rightarrow> a) of
             JArr attributes \<Rightarrow>
               (case addAttributes X attributes [] of
                  Inl e \<Rightarrow> Inl e
                | Inr attributesSet \<Rightarrow>
                    Inr (response\<lparr>data := JObj (setOwn ''custom_attributes'' (JObj attributesSet) d)\<rparr>))
           | _ \<Rightarrow> Inr response)
      | JArr xs \<Rightarrow> Inl Unmodelled
      | _ \<Rightarrow> Inl TypeError)"

subsection \<open>convertPathToUrl and convertBreadcrumbs\<close>

definition convertPathToUrl :: "externals \<Rightarrow> json \<Rightarrow> json" where
  "convertPathToUrl X path =
     (if truthy path then JStr (''/'' @ strOf X path @ ''.html'') else path)"

text \<open>
  The body of the \<open>map\<close> callback of convertBreadcrumbs, on one item. The two
  \<open>if\<close> blocks after \<open>item.urlQuery = null\<close> are kept as the source has them.
\<close>

definition breadcrumbFilters :: "externals \<Rightarrow> json \<Rightarrow> exn + json" where
  "breadcrumbFilters X urlQuery =
     (let first = (case urlQuery of JArr (x # xs) \<Rightarrow> x | _ \<Rightarrow> JUndef) in
      case first of JStr s \<Rightarrow> jsonParse X s | _ \<Rightarrow> Inr first)"

definition convertBreadcrumbItem :: "externals \<Rightarrow> obj \<Rightarrow> exn + obj" where
  "convertBreadcrumbItem X item =
     (let i1 = setOwn ''name'' (stripHtml X (getOwn item ''name'')) item;
          i2 = setOwn ''urlPath'' (convertPathToUrl X (getOwn i1 ''urlPath'')) i1;
          i3 = setOwn ''urlKey'' (getOwn i2 ''urlKey'') i2;
          i4 = setOwn ''urlQuery'' JNull i3
      in case (if truthy (getOwn i4 ''urlQuery'') \<and> isArray (getOwn i4 ''urlQuery'')
               then (case breadcrumbFilters X (getOwn i4 ''urlQuery'') of
                       Inl e \<Rightarrow> Inl e
                     | Inr filters \<Rightarrow> Inr (setOwn ''urlQuery'' (JObj [(''filters'', filters)]) i4))
               else Inr i4) of
           Inl e \<Rightarrow> Inl e
         | Inr i5 \<Rightarrow>
             Inr (if truthy (getOwn i5 ''urlQuery'')
                  then setOwn ''urlPath''
                         (JStr (strOf X (getOwn i5 ''urlPath'') @ ''?'' @ qsStringify X (getOwn i5 ''urlQuery''))) i5
                  else i5))"

fun convertBreadcrumb :: "externals \<Rightarrow> json \<Rightarrow> exn + json" where
  "convertBreadcrumb X JUndef = Inl TypeError"
| "convertBreadcrumb X JNull = Inl TypeError"
| "convertBreadcrumb X (JObj item) =
     (case convertBreadcrumbItem X item of Inl e \<Rightarrow> Inl e | Inr item' \<Rightarrow> Inr (JObj item'))"
| "convertBreadcrumb X (JArr xs) = Inl Unmodelled"
| "convertBreadcrumb X v = Inl TypeError"

text \<open>\<open>xs.map(f)\<close> for a callback that may throw: the first throw ends the loop.\<close>

fun mapE :: "('a \<Rightarrow> exn + 'b) \<Rightarrow> 'a list \<Rightarrow> exn + 'b list" where
  "mapE f [] = Inr []"
| "mapE f (x # xs) =
     (case f x of
        Inl e \<Rightarrow> Inl e
      | Inr y \<Rightarrow> (case mapE f xs of Inl e \<Rightarrow> Inl e | Inr ys \<Rightarrow> Inr (y # ys)))"

text \<open>Sequencing of two steps of which the first may throw.\<close>

definition bindE :: "exn + 'a \<Rightarrow> ('a \<Rightarrow> exn + 'b) \<Rightarrow> exn + 'b" where
  "bindE m f = (case m of Inl e \<Rightarrow> Inl e | Inr x \<Rightarrow> f x)"

definition convertBreadcrumbs :: "externals \<Rightarrow> json list \<Rightarrow> exn + json list" where
  "convertBreadcrumbs X breadcrumbs = mapE (convertBreadcrumb X) breadcrumbs"

subsection \<open>convertTotals\<close>

text \<open>
  \<open>totalSegments.findIndex(item => item.code === 'discount')\<close>: the index of the first
  match, \<open>None\<close> for \<open>-1\<close>. The callback reads \<open>item.code\<close> of every item up to the match.
\<close>

fun findDiscountIndex :: "json list \<Rightarrow> exn + nat option" where
  "findDiscountIndex [] = Inr None"
| "findDiscountIndex (item # rest) =
     (case getProp item ''code'' of
        Inl e \<Rightarrow> Inl e
      | Inr c \<Rightarrow>
          if strictEq c (JStr ''discount'') then Inr (Some 0)
          else (case findDiscountIndex rest of
                  Inl e \<Rightarrow> Inl e
                | Inr None \<Rightarrow> Inr None
                | Inr (Some i) \<Rightarrow> Inr (Some (Suc i))))"

text \<open>
  \<open>xs.splice(i, 1)\<close> and \<open>xs.splice(i, 0, x)\<close> for \<open>i \<ge> 0\<close>; a start beyond the end is
  clamped to the length, which \<open>take\<close> and \<open>drop\<close> do as well.
\<close>

definition spliceRemove :: "nat \<Rightarrow> 'a list \<Rightarrow> 'a list" where
  "spliceRemove i xs = take i xs @ drop (Suc i) xs"

definition spliceInsert :: "nat \<Rightarrow> 'a \<Rightarrow> 'a list \<Rightarrow> 'a list" where
  "spliceInsert i x xs = take i xs @ x # drop i xs"

text \<open>
  The block under \<open>if (totalSegments)\<close>. A truthy value that is not an array has no
  \<open>findIndex\<close> method, so the call throws.
\<close>

definition reorderSegments :: "json \<Rightarrow> exn + json" where
  "reorderSegments totalSegments =
     (case totalSegments of
        JArr segs \<Rightarrow>
          (case findDiscountIndex segs of
             Inl e \<Rightarrow> Inl e
           | Inr None \<Rightarrow> Inr (JArr segs)
           | Inr (Some discountIndex) \<Rightarrow>
               Inr (JArr (spliceInsert 1 (segs ! discountIndex) (spliceRemove discountIndex segs))))
      | _ \<Rightarrow> Inl TypeError)"

text \<open>
  convertTotals. \<open>totalsData\<close> is what convertKeys returns for \<open>response.data\<close>, the same
  object converted in place, so the response that is returned carries it; the splices
  act on the array inside it.
\<close>

definition convertTotals :: "externals \<Rightarrow> response \<Rightarrow> exn + response" where
  "convertTotals X response =
     (let totalsData = convertKeys X (data response) in
      case getProp totalsData ''totalSegments'' of
        Inl e \<Rightarrow> Inl e
      | Inr totalSegments \<Rightarrow>
          if truthy totalSegments then
            (case reorderSegments totalSegments of
               Inl e \<Rightarrow> Inl e
             | Inr segs' \<Rightarrow>
                 (case totalsData of
                    JObj d \<Rightarrow> Inr (response\<lparr>data := JObj (setOwn ''totalSegments'' segs' d)\<rparr>)
                  | _ \<Rightarrow> Inr (response\<lparr>data := totalsData\<rparr>)))
          else Inr (response\<lparr>data := totalsData\<rparr>))"

text \<open>For the claim about convertTotals: a segment is an object; a discount segment has code 'discount'.\<close>

fun isObject :: "json \<Rightarrow> bool" where
  "isObject (JObj kvs) = True"
| "isObject v = False"

definition isDiscount :: "json \<Rightarrow> bool" where
  "isDiscount seg = (getProp seg ''code'' = Inr (JStr ''discount''))"

subsection \<open>convertProductData\<close>

text \<open>
  lodash \<open>isEmpty\<close>: an array or a string is empty when its length is 0, a plain object
  when it has no own key; \<open>null\<close>, \<open>undefined\<close>, numbers and booleans are empty.
\<close>

fun isEmpty :: "json \<Rightarrow> bool" where
  "isEmpty (JArr xs) = (xs = [])"
| "isEmpty (JStr s) = (s = [])"
| "isEmpty (JObj kvs) = (kvs = [])"
| "isEmpty v = True"

text \<open>
  lodash \<open>pick(object, ...paths)\<close>: a new object with those of the named properties the
  argument has, in the order of the names; empty when the argument is not an object.
\<close>

fun pick :: "json \<Rightarrow> string list \<Rightarrow> json" where
  "pick (JObj kvs) paths =
     JObj (concat (map (\<lambda>k. case map_of kvs k of None \<Rightarrow> [] | Some v \<Rightarrow> [(k, v)]) paths))"
| "pick v paths = JObj []"

text \<open>
  Object spread \<open>{...a, ...b}\<close>: the own enumerable properties of each operand, in
  order, a later one overwriting an earlier one. An array or a string contributes its
  elements under their indices; \<open>null\<close>, \<open>undefined\<close>, numbers and booleans contribute
  nothing.
\<close>

definition spreadEntries :: "externals \<Rightarrow> json \<Rightarrow> obj" where
  "spreadEntries X v =
     (case v of
        JObj kvs \<Rightarrow> kvs
      | JArr xs \<Rightarrow> zip (map (\<lambda>i. toStr X (JNum (of_nat i))) [0..<length xs]) xs
      | JStr s \<Rightarrow> zip (map (\<lambda>i. toStr X (JNum (of_nat i))) [0..<length s]) (map (\<lambda>c. JStr [c]) s)
      | _ \<Rightarrow> [])"

definition spreadInto :: "externals \<Rightarrow> obj \<Rightarrow> json \<Rightarrow> obj" where
  "spreadInto X acc v = fold (\<lambda>kv acc'. setOwn (fst kv) (snd kv) acc') (spreadEntries X v) acc"

text \<open>
  \<open>productLink => ({...productLink, ...productLink.extensionAttributes})\<close>
\<close>

definition reduceProductLink :: "externals \<Rightarrow> json \<Rightarrow> exn + json" where
  "reduceProductLink X productLink =
     (case getProp productLink ''extensionAttributes'' of
        Inl e \<Rightarrow> Inl e
      | Inr ea \<Rightarrow> Inr (JObj (spreadInto X (spreadInto X [] productLink) ea)))"

text \<open>
  The callback of \<open>bundleProductOptions.forEach\<close>: \<open>option.productLinks\<close> must be an array
  (anything else has no \<open>map\<close>), and the option is then an object.
\<close>

definition reduceBundleOption :: "externals \<Rightarrow> json \<Rightarrow> exn + json" where
  "reduceBundleOption X option =
     (case getProp option ''productLinks'' of
        Inl e \<Rightarrow> Inl e
      | Inr (JArr productLinks) \<Rightarrow>
          (case mapE (reduceProductLink X) productLinks of
             Inl e \<Rightarrow> Inl e
           | Inr reducedProductLink \<Rightarrow>
               (case option of
                  JObj kvs \<Rightarrow> Inr (JObj (setOwn ''productLinks'' (JArr reducedProductLink) kvs))
                | _ \<Rightarrow> Inl TypeError))
      | Inr _ \<Rightarrow> Inl TypeError)"

text \<open>
  The body of \<open>if (extensionAttributes && !isEmpty(extensionAttributes))\<close>, in three
  parts. Each takes the data and the extension attributes (an object nested in the data,
  which the code mutates through its own name) and returns both.

  First part: \<open>if (breadcrumbs) data.breadcrumbs = this.convertBreadcrumbs(breadcrumbs)\<close>.
  convertBreadcrumbs changes the items in place, so the array under
  \<open>extensionAttributes.breadcrumbs\<close> holds the converted items as well.
\<close>

definition productBreadcrumbs :: "externals \<Rightarrow> obj \<Rightarrow> obj \<Rightarrow> exn + obj \<times> obj" where
  "productBreadcrumbs X ea d =
     (let breadcrumbs = getOwn ea ''breadcrumbs'' in
      if truthy breadcrumbs then
        (case breadcrumbs of
           JArr items \<Rightarrow>
             (case convertBreadcrumbs X items of
                Inl e \<Rightarrow> Inl e
              | Inr items' \<Rightarrow>
                  Inr (setOwn ''breadcrumbs'' (JArr items') d, setOwn ''breadcrumbs'' (JArr items') ea))
         | _ \<Rightarrow> Inl TypeError)
      else Inr (d, ea))"

text \<open>
  Second part, from \<open>data.thumbnail = thumbnailUrl\<close> to
  \<open>data.configurableOptions = configurableProductOptions || []\<close>. \<open>ea0\<close> is the extension
  attributes as destructured at the top of the block; \<open>price\<close> is the constant computed
  before the block.
\<close>

definition productPrices :: "json \<Rightarrow> obj \<Rightarrow> obj \<Rightarrow> obj \<Rightarrow> obj \<times> obj" where
  "productPrices price ea0 ea d =
     (let thumbnailUrl = getOwn ea0 ''thumbnailUrl'';
          mediaGallerySizes = getOwn ea0 ''mediaGallerySizes'';
          stockItem = getOwn ea0 ''stockItem'';
          minPrice = getOwn ea0 ''minPrice'';
          maxPrice = getOwn ea0 ''maxPrice'';
          configurableProductOptions = getOwn ea0 ''configurableProductOptions'';
          d1 = setOwn ''thumbnail'' thumbnailUrl d;
          d2 = setOwn ''gallery'' mediaGallerySizes d1;
          d3 = (if truthy minPrice then setOwn ''minPrice'' minPrice d2 else d2);
          ea1 = (if truthy minPrice then deleteOwn ''minPrice'' ea else ea);
          d4 = (if truthy maxPrice then setOwn ''maxPrice'' maxPrice d3 else d3);
          ea2 = (if truthy maxPrice then deleteOwn ''maxPrice'' ea1 else ea1);
          d5 = (if truthy (getOwn d4 ''minPrice'') \<and> strictEq price (JNum 0)
                then setOwn ''price'' (getOwn d4 ''minPrice'') d4 else d4);
          d6 = (if strictEq (getOwn d5 ''minPrice'') (getOwn d5 ''maxPrice'')
                then deleteOwn ''maxPrice'' (deleteOwn ''minPrice'' d5) else d5);
          d7 = (if truthy stockItem then setOwn ''stock'' (pick stockItem [''qty'', ''isInStock'']) d6 else d6);
          d8 = setOwn ''configurableOptions''
                 (if truthy configurableProductOptions then configurableProductOptions else JArr []) d7
      in (d8, ea2))"

text \<open>
  Third part: \<open>if (bundleProductOptions) { bundleProductOptions.forEach(...);
  data.bundleOptions = bundleProductOptions }\<close>. The options are changed in place, so the
  array under \<open>extensionAttributes.bundleProductOptions\<close> changes with them.
\<close>

definition productBundleOptions :: "externals \<Rightarrow> obj \<Rightarrow> obj \<Rightarrow> obj \<Rightarrow> exn + obj \<times> obj" where
  "productBundleOptions X ea0 ea d =
     (let bundleProductOptions = getOwn ea0 ''bundleProductOptions'' in
      if truthy bundleProductOptions then
        (case bundleProductOptions of
           JArr options \<Rightarrow>
             (case mapE (reduceBundleOption X) options of
                Inl e \<Rightarrow> Inl e
              | Inr options' \<Rightarrow>
                  Inr (setOwn ''bundleOptions'' (JArr options') d,
                       setOwn ''bundleProductOptions'' (JArr options') ea))
         | _ \<Rightarrow> Inl TypeError)
      else Inr (d, ea))"

definition productExtension :: "externals \<Rightarrow> json \<Rightarrow> obj \<Rightarrow> obj \<Rightarrow> exn + obj \<times> obj" where
  "productExtension X price ea0 d =
     (case productBreadcrumbs X ea0 d of
        Inl e \<Rightarrow> Inl e
      | Inr (da, eaa) \<Rightarrow>
          (case productPrices price ea0 eaa da of
             (db, eab) \<Rightarrow> productBundleOptions X ea0 eab db))"

text \<open>
  The body of \<open>if (customAttributes && !isEmpty(customAttributes))\<close>.
\<close>

definition productSeo :: "json \<Rightarrow> obj \<Rightarrow> exn + obj" where
  "productSeo customAttributes d =
     (case getProp customAttributes ''description'' of
        Inl e \<Rightarrow> Inl e
      | Inr description \<Rightarrow>
          (case getProp customAttributes ''metaTitle'' of
             Inl e \<Rightarrow> Inl e
           | Inr metaTitle \<Rightarrow>
               (case getProp customAttributes ''metaDescription'' of
                  Inl e \<Rightarrow> Inl e
                | Inr metaDescription \<Rightarrow>
                    (case getProp customAttributes ''metaKeyword'' of
                       Inl e \<Rightarrow> Inl e
                     | Inr metaKeyword \<Rightarrow>
                         Inr (setOwn ''seo''
                                (JObj [(''title'', metaTitle), (''description'', metaDescription),
                                       (''keywords'', metaKeyword)])
                                (setOwn ''description'' description d))))))"

text \<open>
  convertProductData on the object that convertKeys returned. \<open>extensionAttributes\<close>
  defaults to \<open>{}\<close> when the property is absent or \<open>undefined\<close>. A string or an array as
  \<open>extensionAttributes\<close> has none of the destructured properties, so the block runs on
  it as on an object without properties and has nothing to write back.
\<close>

definition convertProductObject :: "externals \<Rightarrow> obj \<Rightarrow> json \<Rightarrow> exn + obj" where
  "convertProductObject X d0 currency =
     (let extensionAttributes = (case getOwn d0 ''extensionAttributes'' of JUndef \<Rightarrow> JObj [] | v \<Rightarrow> v);
          customAttributes = getOwn d0 ''customAttributes''
      in case getProp extensionAttributes ''catalogDisplayPrice'' of
           Inl e \<Rightarrow> Inl e
         | Inr catalogPrice \<Rightarrow>
             (let price = (if truthy catalogPrice then catalogPrice else getOwn d0 ''price'') in
              case getProp customAttributes ''urlKey'' of
                Inl e \<Rightarrow> Inl e
              | Inr urlKey \<Rightarrow>
                  (let d1 = setOwn ''urlPath'' (convertPathToUrl X urlKey) d0;
                       d2 = setOwn ''priceAmount'' (getOwn d1 ''price'') d1;
                       d3 = setOwn ''currency'' currency d2;
                       d4 = setOwn ''price'' price d3;
                       d5 = setOwn ''name'' (stripHtml X (getOwn d4 ''name'')) d4
                   in case getProp customAttributes ''priceType'' of
                        Inl e \<Rightarrow> Inl e
                      | Inr priceType \<Rightarrow>
                          (let d6 = setOwn ''priceType'' (if truthy priceType then priceType else JStr ''1'') d5
                           in case (if truthy extensionAttributes \<and> \<not> isEmpty extensionAttributes then
                                      (case extensionAttributes of
                                         JObj ea \<Rightarrow>
                                           (case productExtension X price ea d6 of
                                              Inl e \<Rightarrow> Inl e
                                            | Inr (d7, ea') \<Rightarrow> Inr (setOwn ''extensionAttributes'' (JObj ea') d7))
                                       | _ \<Rightarrow>
                                           (case productExtension X price [] d6 of
                                              Inl e \<Rightarrow> Inl e
                                            | Inr (d7, ea') \<Rightarrow> Inr d7))
                                    else Inr d6) of
                                Inl e \<Rightarrow> Inl e
                              | Inr d8 \<Rightarrow>
                                  if truthy customAttributes \<and> \<not> isEmpty customAttributes
                                  then productSeo customAttributes d8
                                  else Inr d8))))"

text \<open>
  convertProductData. \<open>data = this.convertKeys(data)\<close> is the response's data converted
  in place. A converted value that is not an object has no \<open>customAttributes\<close>
  (or cannot be destructured at all), so \<open>customAttributes.urlKey\<close> throws.
  \<open>currency\<close> defaults to \<open>null\<close>.
\<close>

definition convertProductData :: "externals \<Rightarrow> response \<Rightarrow> json \<Rightarrow> exn + response" where
  "convertProductData X response currency =
     (case convertAttributesSet X response of
        Inl e \<Rightarrow> Inl e
      | Inr response1 \<Rightarrow>
          (case convertKeys X (data response1) of
             JObj d0 \<Rightarrow>
               (case convertProductObject X d0 (case currency of JUndef \<Rightarrow> JNull | c \<Rightarrow> c) of
                  Inl e \<Rightarrow> Inl e
                | Inr d \<Rightarrow> Inr (response1\<lparr>data := JObj d\<rparr>))
           | _ \<Rightarrow> Inl TypeError))"

section \<open>The session and the REST layer\<close>

text \<open>
  The session fields this adapter mentions. \<open>cart\<close> and \<open>customerToken\<close> are objects that
  are present or absent (\<open>delete this.session.cart\<close>); the other fields hold whatever was
  stored, \<open>undefined\<close> when nothing was.
\<close>

record cartData =
  quoteId :: json

record customerTokenData =
  token :: json
  expirationTime :: json

record session =
  cart :: "cartData option"
  customerToken :: "customerTokenData option"
  currency :: json
  baseCurrency :: json
  timezone :: json
  weightUnit :: json
  orderId :: json
  orderQuoteId :: json
  paypalExpressHash :: json

text \<open>
  \<open>this.get\<close>, \<open>this.post\<close>, \<open>this.put\<close> and \<open>this.delete\<close> are inherited from the
  REST data source. A call either resolves to a response, of which the adapter reads
  \<open>data\<close>, or throws. The backend is a parameter: it answers a request given the requests
  made before it, so it may keep state. The context argument of a call (\<open>useAdminToken\<close>,
  \<open>skipAuth\<close>, the \<open>didReceiveResult\<close> hook) is handled inside that layer and is not part
  of the request here.
\<close>

datatype httpMethod = GET | POST | PUT | DELETE

record request =
  reqMethod :: httpMethod
  reqPath :: string
  reqBody :: json

type_synonym backend = "request list \<Rightarrow> request \<Rightarrow> exn + json"

text \<open>
  What a handler can change: the session, the requests sent so far (oldest first), and
  the number of \<open>this.context.session.save()\<close> calls.
\<close>

record world =
  session :: session
  requests :: "request list"
  saves :: nat

definition call :: "backend \<Rightarrow> request \<Rightarrow> world \<Rightarrow> (exn + json) \<times> world" where
  "call be rq w = (be (requests w) rq, w\<lparr>requests := requests w @ [rq]\<rparr>)"

text \<open>\<open>new Error(msg)\<close>\<close>

definition newError :: "string \<Rightarrow> exn" where
  "newError msg =
     Thrown \<lparr>statusCode = None, message = msg, code = None, userMessage = False, noLogging = False\<rparr>"

text \<open>\<open>e.message.match(/^pat/)\<close> as a test: the message begins with the pattern.\<close>

definition startsWith :: "string \<Rightarrow> string \<Rightarrow> bool" where
  "startsWith pat s = (take (length pat) s = pat)"

section \<open>Cart handlers\<close>

definition removeCartData :: "world \<Rightarrow> world" where
  "removeCartData w = w\<lparr>session := (session w)\<lparr>cart := None\<rparr>, saves := Suc (saves w)\<rparr>"

text \<open>\<open>customerToken.token\<close> after \<open>customerToken = {}\<close> as the default.\<close>

definition sessionToken :: "session \<Rightarrow> json" where
  "sessionToken s = (case customerToken s of None \<Rightarrow> JUndef | Some t \<Rightarrow> token t)"

text \<open>
  ensureCart. \<open>if (cart && cart.quoteId) return cart\<close>; otherwise the cart is created
  by a POST without body and \<open>{ quoteId: response.data }\<close> is stored.
\<close>

definition ensureCart :: "backend \<Rightarrow> world \<Rightarrow> (exn + cartData) \<times> world" where
  "ensureCart be w =
     (let create =
        (case call be \<lparr>reqMethod = POST,
                       reqPath = (if truthy (sessionToken (session w)) then ''/carts/mine'' else ''/guest-carts''),
                       reqBody = JUndef\<rparr> w of
           (Inl e, w1) \<Rightarrow> (Inl e, w1)
         | (Inr d, w1) \<Rightarrow>
             (Inr \<lparr>quoteId = d\<rparr>, w1\<lparr>session := (session w1)\<lparr>cart := Some \<lparr>quoteId = d\<rparr>\<rparr>\<rparr>))
      in case cart (session w) of
           None \<Rightarrow> create
         | Some c \<Rightarrow> if truthy (quoteId c) then (Inr c, w) else create)"

definition getCartPath :: "externals \<Rightarrow> world \<Rightarrow> exn + string" where
  "getCartPath X w =
     (if \<not> truthy (sessionToken (session w)) \<and> cart (session w) = None
      then Inl (newError ''No cart in session for not registered user.'')
      else if truthy (sessionToken (session w)) then Inr ''/carts/mine''
      else (case cart (session w) of
              Some c \<Rightarrow> Inr (''/guest-carts/'' @ strOf X (quoteId c))
            | None \<Rightarrow> Inl TypeError))"

text \<open>
  processPrice: \<open>data[field] = parseFloat(data[field])\<close> for each field; \<open>data\<close>
  defaults to \<open>{}\<close>. The object is changed in place and returned.
\<close>

definition processPrice :: "externals \<Rightarrow> json \<Rightarrow> string list \<Rightarrow> exn + json" where
  "processPrice X data0 fieldsToProcess =
     (if fieldsToProcess = [] then Inr (case data0 of JUndef \<Rightarrow> JObj [] | v \<Rightarrow> v)
      else
        (case data0 of
           JUndef \<Rightarrow>
             Inr (JObj (fold (\<lambda>field acc. setOwn field (parseFloat X (getOwn acc field)) acc) fieldsToProcess []))
         | JObj kvs \<Rightarrow>
             Inr (JObj (fold (\<lambda>field acc. setOwn field (parseFloat X (getOwn acc field)) acc) fieldsToProcess kvs))
         | JArr xs \<Rightarrow> Inl Unmodelled
         | _ \<Rightarrow> Inl TypeError))"

subsection \<open>convertCartData\<close>

text \<open>
  \<open>totalsData.items.find(totalDataItem => totalDataItem.itemId === item.itemId)\<close>: the
  index of the first match. \<open>item.itemId\<close> is read once per candidate.
\<close>

fun findTotalsItem :: "json \<Rightarrow> json list \<Rightarrow> exn + nat option" where
  "findTotalsItem item [] = Inr None"
| "findTotalsItem item (t # ts) =
     (case getProp t ''itemId'' of
        Inl e \<Rightarrow> Inl e
      | Inr a \<Rightarrow>
          (case getProp item ''itemId'' of
             Inl e \<Rightarrow> Inl e
           | Inr b \<Rightarrow>
               if strictEq a b then Inr (Some 0)
               else (case findTotalsItem item ts of
                       Inl e \<Rightarrow> Inl e
                     | Inr None \<Rightarrow> Inr None
                     | Inr (Some i) \<Rightarrow> Inr (Some (Suc i)))))"

text \<open>
  \<open>delete v.k\<close> for a value with properties: only a plain object has the property to lose.
\<close>

definition deleteProp :: "string \<Rightarrow> json \<Rightarrow> json" where
  "deleteProp k v = (case v of JObj kvs \<Rightarrow> JObj (deleteOwn k kvs) | _ \<Rightarrow> v)"

text \<open>
  \<open>v.k = x\<close> in strict code: \<open>null\<close>, \<open>undefined\<close> and primitives throw.
\<close>

definition setProp :: "string \<Rightarrow> json \<Rightarrow> json \<Rightarrow> exn + json" where
  "setProp k x v =
     (case v of
        JObj kvs \<Rightarrow> Inr (JObj (setOwn k x kvs))
      | JArr xs \<Rightarrow> Inl Unmodelled
      | _ \<Rightarrow> Inl TypeError)"

text \<open>
  \<open>if (totalsDataItem.options) totalsDataItem.itemOptions = typeof options === 'string'
  ? JSON.parse(options) : options\<close>
\<close>

definition parseItemOptions :: "externals \<Rightarrow> json \<Rightarrow> exn + json" where
  "parseItemOptions X totalsDataItem =
     bindE (getProp totalsDataItem ''options'') (\<lambda>options.
       if truthy options then
         bindE (case options of JStr s \<Rightarrow> jsonParse X s | _ \<Rightarrow> Inr options) (\<lambda>itemOptions.
           setProp ''itemOptions'' itemOptions totalsDataItem)
       else Inr totalsDataItem)"

text \<open>
  The callback of \<open>quoteData.items.map\<close> for one cart item. It changes the matching
  element of \<open>totalsData.items\<close> in place, so it takes the current \<open>totalsData.items\<close>
  (\<open>None\<close> when that is not an array: \<open>find\<close> is then not a function) and returns it
  with the merged item.
\<close>

definition mergeCartItem :: "externals \<Rightarrow> json \<Rightarrow> json list option \<Rightarrow> exn + json \<times> json list option" where
  "mergeCartItem X item totalsItems =
     (case totalsItems of
        None \<Rightarrow> Inl TypeError
      | Some ts \<Rightarrow>
          bindE (findTotalsItem item ts) (\<lambda>found.
            case found of
              None \<Rightarrow> Inl TypeError
            | Some i \<Rightarrow>
                bindE (getProp (ts ! i) ''extensionAttributes'') (\<lambda>extensionAttributes.
                bindE (processPrice X (deleteProp ''extensionAttributes'' (ts ! i))
                         [''price'', ''priceInclTax'', ''rowTotalInclTax'', ''rowTotalWithDiscount'',
                          ''taxAmount'', ''discountAmount'', ''weeeTaxAmount'']) (\<lambda>t1.
                bindE (getProp extensionAttributes ''availableQty'') (\<lambda>availableQty.
                bindE (setProp ''availableQty'' (parseFloat X availableQty) extensionAttributes) (\<lambda>ea1.
                bindE (getProp ea1 ''urlKey'') (\<lambda>urlKey.
                bindE (setProp ''link'' (JStr (''/'' @ strOf X urlKey @ ''.html'')) item) (\<lambda>item1.
                bindE (parseItemOptions X t1) (\<lambda>t2.
                  Inr (JObj (spreadInto X (spreadInto X (spreadInto X [] item1) t2) ea1),
                       Some (ts[i := t2])))))))))))"

text \<open>\<open>quoteData.items.map(...)\<close>, threading \<open>totalsData.items\<close> through the calls.\<close>

fun mergeCartItems :: "externals \<Rightarrow> json list \<Rightarrow> json list option \<Rightarrow> exn + json list" where
  "mergeCartItems X [] totalsItems = Inr []"
| "mergeCartItems X (item # rest) totalsItems =
     (case mergeCartItem X item totalsItems of
        Inl e \<Rightarrow> Inl e
      | Inr (merged, totalsItems') \<Rightarrow>
          (case mergeCartItems X rest totalsItems' of
             Inl e \<Rightarrow> Inl e
           | Inr mergedRest \<Rightarrow> Inr (merged # mergedRest)))"

text \<open>
  \<open>segment => ({ ...this.processPrice(segment, ['value'], quoteData.quoteCurrency) })\<close>
\<close>

definition convertSegment :: "externals \<Rightarrow> json \<Rightarrow> exn + json" where
  "convertSegment X seg =
     (case processPrice X seg [''value''] of
        Inl e \<Rightarrow> Inl e
      | Inr seg' \<Rightarrow> Inr (JObj (spreadInto X [] seg')))"

text \<open>
  convertCartData. The first statement, \<open>quoteData.active = quoteData.isActive\<close>, needs
  \<open>quoteData\<close> to be an object; \<open>totalsData.quoteCurrencyCode\<close> needs \<open>totalsData\<close> not to
  be \<open>null\<close> or \<open>undefined\<close>; both \<open>map\<close> calls need arrays.
\<close>

definition convertCartData :: "externals \<Rightarrow> json \<Rightarrow> json \<Rightarrow> exn + json" where
  "convertCartData X quoteData totalsData =
     (case quoteData of
        JObj q0 \<Rightarrow>
          (let q1 = setOwn ''active'' (getOwn q0 ''isActive'') q0;
               q2 = setOwn ''virtual'' (getOwn q1 ''isVirtual'') q1
           in bindE (getProp totalsData ''quoteCurrencyCode'') (\<lambda>quoteCurrencyCode.
              bindE (getProp totalsData ''couponCode'') (\<lambda>couponCode.
              bindE (getProp totalsData ''totalSegments'') (\<lambda>totalSegments.
                (let q3 = setOwn ''quoteCurrency'' quoteCurrencyCode q2;
                     q4 = setOwn ''couponCode'' couponCode q3
                 in case totalSegments of
                      JArr segs \<Rightarrow>
                        bindE (mapE (convertSegment X) segs) (\<lambda>totals.
                          (let q5 = setOwn ''totals'' (JArr totals) q4 in
                           case getOwn q5 ''items'' of
                             JArr items \<Rightarrow>
                               bindE (mergeCartItems X items
                                        (case getProp totalsData ''items'' of
                                           Inr (JArr ts) \<Rightarrow> Some ts
                                         | _ \<Rightarrow> None)) (\<lambda>merged.
                                 Inr (JObj (setOwn ''items'' (JArr merged) q5)))
                           | _ \<Rightarrow> Inl TypeError))
                    | _ \<Rightarrow> Inl TypeError)))))
      | JArr xs \<Rightarrow> Inl Unmodelled
      | _ \<Rightarrow> Inl TypeError)"

subsection \<open>cart\<close>

definition emptyCart :: json where
  "emptyCart =
     JObj [(''active'', JBool False), (''itemsQty'', JNum 0), (''items'', JArr []), (''totals'', JArr [])]"

text \<open>
  The cart handler. \<open>Promise.all\<close> sends both GET requests before either result is
  looked at; the model sends the cart request first. A failure of either request, or of
  the merge, lands in the \<open>catch\<close>.
\<close>

definition cartHandler :: "externals \<Rightarrow> backend \<Rightarrow> world \<Rightarrow> (exn + json) \<times> world" where
  "cartHandler X be w =
     (let quoteId' = (case cart (session w) of None \<Rightarrow> JUndef | Some c \<Rightarrow> quoteId c) in
      if \<not> truthy quoteId' then (Inr emptyCart, w)
      else
        (case getCartPath X w of
           Inl e \<Rightarrow> (Inl e, w)
         | Inr cartPath \<Rightarrow>
             (case call be \<lparr>reqMethod = GET, reqPath = cartPath, reqBody = JObj []\<rparr> w of
                (r1, w1) \<Rightarrow>
                  (case call be \<lparr>reqMethod = GET, reqPath = cartPath @ ''/totals'', reqBody = JObj []\<rparr> w1 of
                     (r2, w2) \<Rightarrow>
                       (case (case r1 of
                                Inl e \<Rightarrow> Inl e
                              | Inr quote \<Rightarrow>
                                  (case r2 of
                                     Inl e \<Rightarrow> Inl e
                                   | Inr totals \<Rightarrow> convertCartData X quote totals)) of
                          Inl ex \<Rightarrow> (Inr emptyCart, removeCartData w2)
                        | Inr merged \<Rightarrow> (Inr merged, w2))))))"

subsection \<open>addToCart\<close>

text \<open>
  The request body of addToCart, built before the \<open>try\<close>.
  \<open>input.configurableOptions.map\<close> needs an array.
\<close>

definition configurableItemOption :: "json \<Rightarrow> exn + json" where
  "configurableItemOption item =
     bindE (getProp item ''optionId'') (\<lambda>optionId.
     bindE (getProp item ''value'') (\<lambda>v.
       Inr (JObj [(''option_id'', optionId), (''option_value'', v)])))"

definition addToCartProduct :: "obj \<Rightarrow> cartData \<Rightarrow> exn + json" where
  "addToCartProduct input cartData =
     (let cart_item = [(''sku'', getOwn input ''sku''), (''qty'', getOwn input ''qty''),
                       (''quote_id'', quoteId cartData)]
      in bindE (if truthy (getOwn input ''configurableOptions'') then
                  (case getOwn input ''configurableOptions'' of
                     JArr items \<Rightarrow>
                       bindE (mapE configurableItemOption items) (\<lambda>options.
                         Inr (setOwn ''product_option''
                                (JObj [(''extension_attributes'',
                                        JObj [(''configurable_item_options'', JArr options)])])
                                cart_item))
                   | _ \<Rightarrow> Inl TypeError)
                else Inr cart_item) (\<lambda>cart_item1.
           Inr (JObj [(''cart_item'',
                  JObj (if truthy (getOwn input ''bundleOptions'')
                        then setOwn ''product_option''
                               (JObj [(''extension_attributes'',
                                       JObj [(''bundle_options'', getOwn input ''bundleOptions'')])])
                               cart_item1
                        else cart_item1))])))"

text \<open>
  The \<open>catch\<close> block of addToCart. A runtime TypeError has no \<open>statusCode\<close> and its
  message is the runtime's, which begins with neither pattern.
\<close>

definition addToCartCatch :: "exn \<Rightarrow> world \<Rightarrow> exn \<times> world" where
  "addToCartCatch ex w =
     (case ex of
        Thrown e \<Rightarrow>
          if statusCode e = Some 400 then
            (if startsWith ''We don't have as many'' (message e)
             then (Thrown (e\<lparr>code := Some ''STOCK_TOO_LOW'', userMessage := True, noLogging := True\<rparr>), w)
             else (Thrown e, w))
          else if startsWith ''No such entity with cartId'' (message e)
          then (Thrown (e\<lparr>code := Some ''INVALID_CART''\<rparr>), removeCartData w)
          else (Thrown e, w)
      | _ \<Rightarrow> (ex, w))"

text \<open>
  The \<open>try\<close> block of addToCart after the POST has resolved: the cart item is converted
  and its price parsed, both in place; an \<open>undefined\<close> item is returned as it is.
\<close>

definition addToCartItem :: "externals \<Rightarrow> json \<Rightarrow> exn + json" where
  "addToCartItem X cartItem =
     (let converted = convertKeys X cartItem in
      bindE (processPrice X converted [''price'']) (\<lambda>processed.
        Inr (case converted of JUndef \<Rightarrow> JUndef | _ \<Rightarrow> processed)))"

definition addToCart :: "externals \<Rightarrow> backend \<Rightarrow> obj \<Rightarrow> world \<Rightarrow> (exn + json) \<times> world" where
  "addToCart X be input w =
     (case ensureCart be w of
        (Inl e, w1) \<Rightarrow> (Inl e, w1)
      | (Inr cartData, w1) \<Rightarrow>
          (case getCartPath X w1 of
             Inl e \<Rightarrow> (Inl e, w1)
           | Inr cartPath \<Rightarrow>
               (case addToCartProduct input cartData of
                  Inl e \<Rightarrow> (Inl e, w1)
                | Inr product \<Rightarrow>
                    (case call be \<lparr>reqMethod = POST, reqPath = cartPath @ ''/items'', reqBody = product\<rparr> w1 of
                       (r, w2) \<Rightarrow>
                         (case bindE r (addToCartItem X) of
                            Inr cartItem \<Rightarrow> (Inr cartItem, w2)
                          | Inl ex \<Rightarrow> (case addToCartCatch ex w2 of (ex', w3) \<Rightarrow> (Inl ex', w3)))))))"

section \<open>Customer handlers\<close>

text \<open>
  \<open>const { cart: { quoteId = null } = {} } = this.session\<close>
\<close>

definition guestQuoteId :: "session \<Rightarrow> json" where
  "guestQuoteId s =
     (case cart s of
        None \<Rightarrow> JNull
      | Some c \<Rightarrow> (case quoteId c of JUndef \<Rightarrow> JNull | q \<Rightarrow> q))"

text \<open>The \<open>catch\<close> blocks of signIn, signUp, changeCustomerPassword, applyCoupon and placeOrder.\<close>

definition signInCatch :: "exn \<Rightarrow> exn" where
  "signInCatch ex =
     (case ex of
        Thrown e \<Rightarrow>
          if statusCode e = Some 401 then Thrown (e\<lparr>userMessage := True, noLogging := True\<rparr>)
          else Thrown e
      | _ \<Rightarrow> ex)"

definition signUpCatch :: "exn \<Rightarrow> exn" where
  "signUpCatch ex =
     (case ex of
        Thrown e \<Rightarrow>
          if statusCode e = Some 400 then Thrown (e\<lparr>userMessage := True, noLogging := True\<rparr>)
          else Thrown e
      | _ \<Rightarrow> ex)"

definition changeCustomerPasswordCatch :: "exn \<Rightarrow> exn" where
  "changeCustomerPasswordCatch ex =
     (case ex of
        Thrown e \<Rightarrow>
          if statusCode e = Some 401 \<or> statusCode e = Some 503
          then Thrown (e\<lparr>userMessage := True, code := None, noLogging := True\<rparr>)
          else Thrown e
      | _ \<Rightarrow> ex)"

definition applyCouponCatch :: "exn \<Rightarrow> exn" where
  "applyCouponCatch ex =
     (case ex of
        Thrown e \<Rightarrow>
          if statusCode e = Some 404 then Thrown (e\<lparr>userMessage := True, noLogging := True\<rparr>)
          else Thrown e
      | _ \<Rightarrow> ex)"

definition placeOrderCatch :: "exn \<Rightarrow> exn" where
  "placeOrderCatch ex =
     (case ex of
        Thrown e \<Rightarrow>
          if statusCode e = Some 400 then Thrown (e\<lparr>userMessage := True, noLogging := True\<rparr>)
          else Thrown e
      | _ \<Rightarrow> ex)"

text \<open>
  signIn. Everything from the POST to the final ensureCart is inside the \<open>try\<close>; the
  session keeps what was written before a throw.
\<close>

definition signInSession :: "externals \<Rightarrow> backend \<Rightarrow> json \<Rightarrow> world \<Rightarrow> (exn + json) \<times> world" where
  "signInSession X be responseData w =
     (let converted = convertKeys X responseData in
      case bindE (getProp converted ''token'') (\<lambda>tok.
           bindE (getProp converted ''validTime'') (\<lambda>validTime. Inr (tok, validTime))) of
        Inl e \<Rightarrow> (Inl e, w)
      | Inr (tok, validTime) \<Rightarrow>
          (let w1 = w\<lparr>session := (session w)
                      \<lparr>customerToken := Some \<lparr>token = tok, expirationTime = tokenExpiration X validTime\<rparr>,
                       cart := None\<rparr>\<rparr>
           in case ensureCart be w1 of
                (Inl e, w2) \<Rightarrow> (Inl e, w2)
              | (Inr c, w2) \<Rightarrow> (Inr (JBool True), w2)))"

definition signIn :: "externals \<Rightarrow> backend \<Rightarrow> obj \<Rightarrow> world \<Rightarrow> (exn + json) \<times> world" where
  "signIn X be input w =
     (case call be \<lparr>reqMethod = POST, reqPath = ''/integration/customer/token'',
                    reqBody = JObj [(''username'', getOwn input ''email''),
                                    (''password'', getOwn input ''password''),
                                    (''guest_quote_id'', guestQuoteId (session w))]\<rparr> w of
        (r, w1) \<Rightarrow>
          (case (case r of Inl e \<Rightarrow> (Inl e, w1) | Inr d \<Rightarrow> signInSession X be d w1) of
             (Inl e, w2) \<Rightarrow> (Inl (signInCatch e), w2)
           | (Inr v, w2) \<Rightarrow> (Inr v, w2)))"


text \<open>
  signUp. \<open>return this.signIn(...)\<close> hands the promise of signIn over without awaiting
  it, so a failure of signIn does not pass through the \<open>catch\<close> of signUp.
\<close>

definition signUp :: "externals \<Rightarrow> backend \<Rightarrow> obj \<Rightarrow> world \<Rightarrow> (exn + json) \<times> world" where
  "signUp X be input w =
     (case call be \<lparr>reqMethod = POST, reqPath = ''/customers'',
                    reqBody = JObj [(''customer'',
                                     JObj [(''email'', getOwn input ''email''),
                                           (''firstname'', getOwn input ''firstname''),
                                           (''lastname'', getOwn input ''lastname''),
                                           (''extension_attributes'',
                                            JObj [(''guest_quote_id'', guestQuoteId (session w))])]),
                                    (''password'', getOwn input ''password'')]\<rparr> w of
        (Inl e, w1) \<Rightarrow> (Inl (signUpCatch e), w1)
      | (Inr d, w1) \<Rightarrow>
          if truthy (getOwn input ''autoSignIn'')
          then signIn X be [(''email'', getOwn input ''email''), (''password'', getOwn input ''password'')] w1
          else (Inr (JBool True), w1))"

definition changeCustomerPassword :: "backend \<Rightarrow> obj \<Rightarrow> world \<Rightarrow> (exn + json) \<times> world" where
  "changeCustomerPassword be input w =
     (if \<not> truthy (sessionToken (session w))
      then (Inl (newError ''You do not have an access to edit account data''), w)
      else
        (case call be \<lparr>reqMethod = PUT, reqPath = ''/customers/me/password'',
                       reqBody = JObj [(''currentPassword'', getOwn input ''currentPassword''),
                                       (''newPassword'', getOwn input ''password'')]\<rparr> w of
           (Inl e, w1) \<Rightarrow> (Inl (changeCustomerPasswordCatch e), w1)
         | (Inr d, w1) \<Rightarrow> (Inr d, w1)))"

definition applyCoupon :: "externals \<Rightarrow> backend \<Rightarrow> obj \<Rightarrow> world \<Rightarrow> (exn + json) \<times> world" where
  "applyCoupon X be input w =
     (case getCartPath X w of
        Inl e \<Rightarrow> (Inl e, w)
      | Inr route \<Rightarrow>
          if (case cart (session w) of None \<Rightarrow> True | Some c \<Rightarrow> \<not> truthy (quoteId c))
          then (Inl (newError ''Trying to apply coupon without quoteId in session''), w)
          else
            (case call be \<lparr>reqMethod = PUT,
                           reqPath = route @ ''/coupons/'' @ strOf X (getOwn input ''couponCode''),
                           reqBody = JUndef\<rparr> w of
               (Inl e, w1) \<Rightarrow> (Inl (applyCouponCatch e), w1)
             | (Inr d, w1) \<Rightarrow> (Inr d, w1)))"

section \<open>Order handlers\<close>

text \<open>
  performCartAction. \<open>cart.quoteId\<close> is read without a check that the session has a
  cart. The response keeps the converted data when that is an object or an array, and
  otherwise wraps it as \<open>{ data: cartData }\<close>.
\<close>

definition performCartAction ::
  "externals \<Rightarrow> backend \<Rightarrow> string \<Rightarrow> httpMethod \<Rightarrow> json \<Rightarrow> world \<Rightarrow> (exn + response) \<times> world" where
  "performCartAction X be path' method' data' w =
     (case cart (session w) of
        None \<Rightarrow> (Inl TypeError, w)
      | Some c \<Rightarrow>
          if \<not> truthy (quoteId c)
          then (Inl (newError (''Quote id is empty, cannot perform api call for '' @ path')), w)
          else
            (case getCartPath X w of
               Inl e \<Rightarrow> (Inl e, w)
             | Inr cartPath \<Rightarrow>
                 (case call be \<lparr>reqMethod = method', reqPath = cartPath @ path',
                                reqBody = (if method' = GET then JNull else data')\<rparr> w of
                    (Inl e, w1) \<Rightarrow> (Inl e, w1)
                  | (Inr d, w1) \<Rightarrow>
                      (let cartData = convertKeys X d in
                       (Inr \<lparr>data = (if isObject cartData \<or> isArray cartData then cartData
                                      else JObj [(''data'', cartData)])\<rparr>, w1)))))"

text \<open>
  The adyen block of placeOrder, on \<open>orderData = response.data\<close> (an object or an array
  after performCartAction).
\<close>

definition placeOrderAdyen :: "json \<Rightarrow> json" where
  "placeOrderAdyen orderData =
     (case orderData of
        JObj od \<Rightarrow>
          (case getOwn od ''extensionAttributes'' of
             JObj ea \<Rightarrow>
               if truthy (getOwn ea ''adyen'')
               then JObj (setOwn ''extensionAttributes'' (JObj (deleteOwn ''adyen'' ea))
                            (setOwn ''adyen'' (getOwn ea ''adyen'') od))
               else orderData
           | _ \<Rightarrow> orderData)
      | _ \<Rightarrow> orderData)"

definition placeOrder :: "externals \<Rightarrow> backend \<Rightarrow> obj \<Rightarrow> world \<Rightarrow> (exn + json) \<times> world" where
  "placeOrder X be input w =
     (case performCartAction X be ''/deity-order'' PUT (JObj input) w of
        (Inl e, w1) \<Rightarrow> (Inl (placeOrderCatch e), w1)
      | (Inr response, w1) \<Rightarrow>
          (let orderData = placeOrderAdyen (data response);
               orderId' = (case orderData of JObj od \<Rightarrow> getOwn od ''orderId'' | _ \<Rightarrow> JUndef);
               w2 = w1\<lparr>session := (session w1)\<lparr>orderId := orderId'\<rparr>\<rparr>
           in if \<not> truthy orderId' then (Inl (newError ''no order id from magento.''), w2)
              else
                (case cart (session w2) of
                   None \<Rightarrow> (Inl TypeError, w2)
                 | Some c \<Rightarrow>
                     (Inr orderData, w2\<lparr>session := (session w2)\<lparr>orderQuoteId := quoteId c\<rparr>\<rparr>))))"



section \<open>The handlers that use the session\<close>






section \<open>Notions used in the statements\<close>

subsection \<open>The requests the handlers send\<close>

definition createCartRequest :: "session \<Rightarrow> request" where
  "createCartRequest s =
     \<lparr>reqMethod = POST,
      reqPath = (if truthy (sessionToken s) then ''/carts/mine'' else ''/guest-carts''),
      reqBody = JUndef\<rparr>"

definition cartRequest :: "string \<Rightarrow> request" where
  "cartRequest cartPath = \<lparr>reqMethod = GET, reqPath = cartPath, reqBody = JObj []\<rparr>"

definition totalsRequest :: "string \<Rightarrow> request" where
  "totalsRequest cartPath = \<lparr>reqMethod = GET, reqPath = cartPath @ ''/totals'', reqBody = JObj []\<rparr>"

definition addToCartRequest :: "string \<Rightarrow> json \<Rightarrow> request" where
  "addToCartRequest cartPath product = \<lparr>reqMethod = POST, reqPath = cartPath @ ''/items'', reqBody = product\<rparr>"

definition signInRequest :: "obj \<Rightarrow> session \<Rightarrow> request" where
  "signInRequest input s =
     \<lparr>reqMethod = POST, reqPath = ''/integration/customer/token'',
      reqBody = JObj [(''username'', getOwn input ''email''),
                      (''password'', getOwn input ''password''),
                      (''guest_quote_id'', guestQuoteId s)]\<rparr>"

definition signUpRequest :: "obj \<Rightarrow> session \<Rightarrow> request" where
  "signUpRequest input s =
     \<lparr>reqMethod = POST, reqPath = ''/customers'',
      reqBody = JObj [(''customer'',
                       JObj [(''email'', getOwn input ''email''),
                             (''firstname'', getOwn input ''firstname''),
                             (''lastname'', getOwn input ''lastname''),
                             (''extension_attributes'',
                              JObj [(''guest_quote_id'', guestQuoteId s)])]),
                      (''password'', getOwn input ''password'')]\<rparr>"

definition changePasswordRequest :: "obj \<Rightarrow> request" where
  "changePasswordRequest input =
     \<lparr>reqMethod = PUT, reqPath = ''/customers/me/password'',
      reqBody = JObj [(''currentPassword'', getOwn input ''currentPassword''),
                      (''newPassword'', getOwn input ''password'')]\<rparr>"

definition couponRequest :: "externals \<Rightarrow> string \<Rightarrow> obj \<Rightarrow> request" where
  "couponRequest X route input =
     \<lparr>reqMethod = PUT, reqPath = route @ ''/coupons/'' @ strOf X (getOwn input ''couponCode''),
      reqBody = JUndef\<rparr>"

definition placeOrderRequest :: "string \<Rightarrow> obj \<Rightarrow> request" where
  "placeOrderRequest cartPath input =
     \<lparr>reqMethod = PUT, reqPath = cartPath @ ''/deity-order'', reqBody = JObj input\<rparr>"

subsection \<open>Shapes and outcomes\<close>

text \<open>Whether a handler's outcome is an error marked user-visible.\<close>

definition userVisible :: "(exn + 'a) \<times> world \<Rightarrow> bool" where
  "userVisible out = (case fst out of Inl (Thrown e) \<Rightarrow> userMessage e | _ \<Rightarrow> False)"

text \<open>
  A primitive value: not an object and not an array. Its string coercion cannot throw;
  that of an object can (its \<open>toString\<close> may not be callable).
\<close>

fun isPrimitive :: "json \<Rightarrow> bool" where
  "isPrimitive (JObj kvs) = False"
| "isPrimitive (JArr xs) = False"
| "isPrimitive v = True"

text \<open>Reading one property of the data of a returned response.\<close>

definition resultProp :: "exn + response \<Rightarrow> string \<Rightarrow> exn + json" where
  "resultProp r k = (case r of Inl e \<Rightarrow> Inl e | Inr response \<Rightarrow> getProp (data response) k)"

text \<open>
  The claim about convertAttributesSet speaks of an array of \<open>{attribute_code, value}\<close>
  records. \<open>isAttribute\<close> says what such a record is, \<open>attributeEntry\<close> reads it.
\<close>

fun isAttribute :: "json \<Rightarrow> bool" where
  "isAttribute (JObj kvs) = (case getOwn kvs ''attribute_code'' of JStr c \<Rightarrow> True | _ \<Rightarrow> False)"
| "isAttribute v = False"

fun attributeEntry :: "json \<Rightarrow> string \<times> json" where
  "attributeEntry (JObj kvs) =
     (case getOwn kvs ''attribute_code'' of
        JStr c \<Rightarrow> (c, getOwn kvs ''value'')
      | _ \<Rightarrow> ([], getOwn kvs ''value''))"
| "attributeEntry v = ([], JUndef)"

section \<open>Sample inputs\<close>

text \<open>
  A concrete choice of the external functions, for evaluating the model on examples. Its
  convertKeys renames, by a table, the keys of an object and of the objects directly
  inside it.
\<close>

definition sampleCamelCase :: "string \<Rightarrow> string" where
  "sampleCamelCase k =
     (case map_of
        [(''custom_attributes'', ''customAttributes''),
         (''extension_attributes'', ''extensionAttributes''),
         (''url_key'', ''urlKey''),
         (''catalog_display_price'', ''catalogDisplayPrice''),
         (''min_price'', ''minPrice''),
         (''max_price'', ''maxPrice''),
         (''total_segments'', ''totalSegments''),
         (''order_id'', ''orderId'')] k of
        Some k' \<Rightarrow> k'
      | None \<Rightarrow> k)"

definition sampleConvertKeys :: "json \<Rightarrow> json" where
  "sampleConvertKeys v =
     (case v of
        JObj kvs \<Rightarrow>
          JObj (map (\<lambda>kv. (sampleCamelCase (fst kv),
                          (case snd kv of
                             JObj kvs' \<Rightarrow> JObj (map (\<lambda>kv'. (sampleCamelCase (fst kv'), snd kv')) kvs')
                           | w \<Rightarrow> w))) kvs)
      | w \<Rightarrow> w)"

definition sampleExternals :: externals where
  "sampleExternals =
     \<lparr>convertKeys = sampleConvertKeys, stripHtml = (\<lambda>v. v), toStr = (\<lambda>v. ''?''),
      qsStringify = (\<lambda>v. ''filters''), jsonParse = (\<lambda>s. Inr (JStr s)), parseFloat = (\<lambda>v. v),
      tokenExpiration = (\<lambda>v. v)\<rparr>"


definition sampleBreadcrumbs :: "json list" where
  "sampleBreadcrumbs =
     [JObj [(''name'', JStr ''Men''), (''urlPath'', JStr ''men''),
            (''urlQuery'', JArr [JStr ''{}''])]]"

definition sampleAttributes :: "json list" where
  "sampleAttributes =
     [JObj [(''attribute_code'', JStr ''url_key''), (''value'', JStr ''shirt'')],
      JObj [(''attribute_code'', JStr ''color''), (''value'', JNum 5)]]"

definition sampleWithAttributes :: obj where
  "sampleWithAttributes = [(''sku'', JStr ''A1''), (''custom_attributes'', JArr sampleAttributes)]"

definition sampleNoAttributes :: obj where
  "sampleNoAttributes = [(''sku'', JStr ''A1'')]"

definition sampleFlatAttributes :: obj where
  "sampleFlatAttributes = [(''sku'', JStr ''A1''), (''custom_attributes'', JObj [(''url_key'', JStr ''shirt'')])]"

definition segment :: "string \<Rightarrow> json" where
  "segment c = JObj [(''code'', JStr c)]"

definition sampleTotals :: response where
  "sampleTotals =
     \<lparr>data = JObj [(''total_segments'',
        JArr [segment ''subtotal'', segment ''shipping'', segment ''discount'', segment ''grand_total''])]\<rparr>"

definition sampleTotalsNoDiscount :: response where
  "sampleTotalsNoDiscount =
     \<lparr>data = JObj [(''totalSegments'', JArr [segment ''subtotal'', segment ''grand_total''])]\<rparr>"

definition sampleTotalsOnlyDiscount :: response where
  "sampleTotalsOnlyDiscount = \<lparr>data = JObj [(''total_segments'', JArr [segment ''discount''])]\<rparr>"

definition sampleProductZeroCatalogPrice :: response where
  "sampleProductZeroCatalogPrice =
     \<lparr>data = JObj [(''sku'', JStr ''A1''), (''price'', JNum 100),
        (''custom_attributes'', JArr [JObj [(''attribute_code'', JStr ''url_key''), (''value'', JStr ''shirt'')]]),
        (''extension_attributes'', JObj [(''catalog_display_price'', JNum 0), (''min_price'', JNum 50)])]\<rparr>"

definition sampleProductNullMinPrice :: response where
  "sampleProductNullMinPrice =
     \<lparr>data = JObj [(''sku'', JStr ''A1''), (''price'', JNum 0),
        (''custom_attributes'', JArr [JObj [(''attribute_code'', JStr ''url_key''), (''value'', JStr ''shirt'')]]),
        (''extension_attributes'', JObj [(''min_price'', JNull)])]\<rparr>"

definition sampleProductZeroPrice :: response where
  "sampleProductZeroPrice =
     \<lparr>data = JObj [(''sku'', JStr ''A1''), (''price'', JNum 0),
        (''custom_attributes'', JArr [JObj [(''attribute_code'', JStr ''url_key''), (''value'', JStr ''shirt'')]]),
        (''extension_attributes'', JObj [(''min_price'', JNum 50), (''max_price'', JNum 80)])]\<rparr>"

definition sampleSession :: session where
  "sampleSession =
     \<lparr>cart = None, customerToken = None, currency = JStr ''EUR'', baseCurrency = JUndef,
      timezone = JUndef, weightUnit = JUndef, orderId = JUndef, orderQuoteId = JUndef,
      paypalExpressHash = JUndef\<rparr>"

definition sampleWorld :: world where
  "sampleWorld = \<lparr>session = sampleSession, requests = [], saves = 0\<rparr>"

definition sampleWorldWithCart :: world where
  "sampleWorldWithCart =
     \<lparr>session = sampleSession\<lparr>cart := Some \<lparr>quoteId = JStr ''q1''\<rparr>\<rparr>, requests = [], saves = 0\<rparr>"

definition httpError :: "int \<Rightarrow> string \<Rightarrow> jserror" where
  "httpError status msg =
     \<lparr>statusCode = Some status, message = msg, code = None, userMessage = False, noLogging = False\<rparr>"

definition failingBackend :: "int \<Rightarrow> string \<Rightarrow> backend" where
  "failingBackend status msg = (\<lambda>history rq. Inl (Thrown (httpError status msg)))"

text \<open>A backend that answers the n-th request (counting from 0) with the number n.\<close>

definition countingBackend :: backend where
  "countingBackend = (\<lambda>history rq. Inr (JNum (of_nat (length history))))"

text \<open>A backend whose first request fails with status 503 and whose later requests return 'q2'.\<close>

definition recoveringBackend :: backend where
  "recoveringBackend =
     (\<lambda>history rq. if history = [] then Inl (Thrown (httpError 503 ''Service Unavailable''))
                    else Inr (JStr ''q2''))"

text \<open>A backend that answers every request with the quote id 'q9'.\<close>

definition quoteBackend :: backend where
  "quoteBackend = (\<lambda>history rq. Inr (JStr ''q9''))"

text \<open>A backend that answers every request with an order.\<close>

definition orderBackend :: backend where
  "orderBackend =
     (\<lambda>history rq. Inr (JObj [(''order_id'', JNum 42), (''payment'', JObj [(''method'', JStr ''checkmo'')])]))"

definition sampleWorldSignedIn :: world where
  "sampleWorldSignedIn =
     \<lparr>session = sampleSession\<lparr>customerToken := Some \<lparr>token = JStr ''t1'', expirationTime = JNum 1\<rparr>\<rparr>,
      requests = [], saves = 0\<rparr>"

definition sampleCartInput :: obj where
  "sampleCartInput = [(''sku'', JStr ''A1''), (''qty'', JNum 1)]"

definition sampleSignInInput :: obj where
  "sampleSignInInput = [(''email'', JStr ''a@b.c''), (''password'', JStr ''pw'')]"

section \<open>Properties\<close>

lemma getOwn_setOwn: "getOwn (setOwn k v kvs) k' = (if k' = k then v else getOwn kvs k')"
  by (simp add: getOwn_def setOwn_def update_conv')

lemma getOwn_deleteOwn: "getOwn (deleteOwn k kvs) k' = (if k' = k then JUndef else getOwn kvs k')"
  by (simp add: getOwn_def deleteOwn_def delete_conv')

subsection \<open>convertBreadcrumbs\<close>

lemma mapE_Inr:
  "mapE f xs = Inr ys \<Longrightarrow> length ys = length xs \<and> (\<forall>i < length xs. f (xs ! i) = Inr (ys ! i))"
proof (induction xs arbitrary: ys)
  case Nil
  then show ?case by simp
next
  case (Cons x xs)
  from Cons.prems obtain y ys' where fx: "f x = Inr y" and m: "mapE f xs = Inr ys'" and ys: "ys = y # ys'"
    by (auto split: sum.splits)
  from Cons.IH [OF m] have len: "length ys' = length xs"
    and nth: "\<forall>i < length xs. f (xs ! i) = Inr (ys' ! i)" by simp_all
  show ?case
  proof (intro conjI allI impI)
    show "length ys = length (x # xs)" using len ys by simp
  next
    fix i assume "i < length (x # xs)"
    then show "f ((x # xs) ! i) = Inr (ys ! i)"
      using fx nth ys by (cases i) simp_all
  qed
qed

lemma mapE_total:
  "(\<forall>x \<in> set xs. \<exists>y. f x = Inr y) \<Longrightarrow> \<exists>ys. mapE f xs = Inr ys"
  by (induction xs) auto

text \<open>
  The two blocks guarded by \<open>item.urlQuery\<close> never run: whatever \<open>JSON.parse\<close> and
  \<open>qs.stringify\<close> do, an item comes out of the straight-line assignments only.
\<close>

lemma convertBreadcrumbItem_straight:
  "convertBreadcrumbItem X item =
     Inr (setOwn ''urlQuery'' JNull
           (setOwn ''urlKey'' (getOwn item ''urlKey'')
             (setOwn ''urlPath'' (convertPathToUrl X (getOwn item ''urlPath''))
               (setOwn ''name'' (stripHtml X (getOwn item ''name'')) item))))"
  by (simp add: convertBreadcrumbItem_def Let_def getOwn_setOwn)

lemma convertBreadcrumb_Inr:
  assumes "convertBreadcrumb X b = Inr y"
  shows "getProp y ''urlQuery'' = Inr JNull \<and>
         (\<exists>item. b = JObj item \<and>
            getProp y ''urlPath'' = Inr (convertPathToUrl X (getOwn item ''urlPath'')))"
  using assms
  by (cases b) (auto simp: convertBreadcrumbItem_straight getOwn_setOwn)

text \<open>A list of objects is always converted: the function returns.\<close>

lemma convertBreadcrumbs_objects_return:
  "(\<forall>b \<in> set breadcrumbs. \<exists>item. b = JObj item) \<Longrightarrow>
   \<exists>items. convertBreadcrumbs X breadcrumbs = Inr items"
  unfolding convertBreadcrumbs_def
  by (rule mapE_total) (auto simp: convertBreadcrumbItem_straight)

lemma sampleBreadcrumbs_result:
  "convertBreadcrumbs sampleExternals sampleBreadcrumbs =
     Inr [JObj [(''name'', JStr ''Men''), (''urlPath'', JStr ''/men.html''),
                (''urlQuery'', JNull), (''urlKey'', JUndef)]]"
  by (simp add: convertBreadcrumbs_def sampleBreadcrumbs_def convertBreadcrumbItem_def
      sampleExternals_def convertPathToUrl_def strOf_def getOwn_def setOwn_def Let_def)

text \<open>
  C9. For every input list, every item that convertBreadcrumbs returns has
  \<open>urlQuery\<close> equal to \<open>null\<close>, and its \<open>urlPath\<close> is exactly convertPathToUrl of the
  input item's \<open>urlPath\<close>: no query string is appended, whatever the input's
  \<open>urlQuery\<close> was and whatever \<open>JSON.parse\<close> and \<open>qs.stringify\<close> would have produced.
\<close>

theorem convertBreadcrumbs_urlQuery_null:
  assumes "convertBreadcrumbs X breadcrumbs = Inr items"
  shows "length items = length breadcrumbs \<and>
         (\<forall>i < length items.
            getProp (items ! i) ''urlQuery'' = Inr JNull \<and>
            (\<exists>item. breadcrumbs ! i = JObj item \<and>
               getProp (items ! i) ''urlPath'' = Inr (convertPathToUrl X (getOwn item ''urlPath''))))"
proof -
  from assms have m: "mapE (convertBreadcrumb X) breadcrumbs = Inr items"
    by (simp add: convertBreadcrumbs_def)
  from mapE_Inr [OF m] have len: "length items = length breadcrumbs"
    and nth: "\<forall>i < length breadcrumbs. convertBreadcrumb X (breadcrumbs ! i) = Inr (items ! i)"
    by simp_all
  have "getProp (items ! i) ''urlQuery'' = Inr JNull \<and>
            (\<exists>item. breadcrumbs ! i = JObj item \<and>
               getProp (items ! i) ''urlPath'' = Inr (convertPathToUrl X (getOwn item ''urlPath'')))"
    if "i < length items" for i
  proof -
    from that len nth have "convertBreadcrumb X (breadcrumbs ! i) = Inr (items ! i)" by simp
    then show ?thesis by (rule convertBreadcrumb_Inr)
  qed
  with len show ?thesis by blast
qed

theorem convertBreadcrumbs_urlQuery_null_witness:
  "convertBreadcrumbs sampleExternals sampleBreadcrumbs =
     Inr [JObj [(''name'', JStr ''Men''), (''urlPath'', JStr ''/men.html''),
                (''urlQuery'', JNull), (''urlKey'', JUndef)]] \<and>
   getProp (JObj [(''name'', JStr ''Men''), (''urlPath'', JStr ''/men.html''),
                (''urlQuery'', JNull), (''urlKey'', JUndef)]) ''urlQuery'' = Inr JNull"
  using convertBreadcrumbs_urlQuery_null [OF sampleBreadcrumbs_result] sampleBreadcrumbs_result
  by simp

subsection \<open>convertAttributesSet\<close>

lemma addAttributes_records:
  "\<forall>a \<in> set attributes. isAttribute a \<Longrightarrow>
   \<exists>flat. addAttributes X attributes acc = Inr flat \<and>
          map_of flat = map_of acc ++ map_of (rev (map attributeEntry attributes))"
proof (induction attributes arbitrary: acc)
  case Nil
  then show ?case by simp
next
  case (Cons a attributes)
  from Cons.prems obtain kvs c where a: "a = JObj kvs" and c: "getOwn kvs ''attribute_code'' = JStr c"
    by (cases a) (auto split: json.splits)
  from Cons.prems have "\<forall>a \<in> set attributes. isAttribute a" by simp
  from Cons.IH [OF this, of "setOwn c (getOwn kvs ''value'') acc"]
  obtain flat where f: "addAttributes X attributes (setOwn c (getOwn kvs ''value'') acc) = Inr flat"
    and m: "map_of flat = map_of (setOwn c (getOwn kvs ''value'') acc) ++ map_of (rev (map attributeEntry attributes))"
    by blast
  have "addAttributes X (a # attributes) acc = Inr flat"
    using a c f by (simp add: strOf_def)
  moreover have "map_of flat = map_of acc ++ map_of (rev (map attributeEntry (a # attributes)))"
    using a c m by (simp add: setOwn_def update_conv' map_add_upd_left)
  ultimately show ?case by blast
qed

text \<open>
  C6 as stated fails when \<open>custom_attributes\<close> is absent: the destructuring default
  \<open>[]\<close> is an array, so the data gains \<open>custom_attributes: {}\<close>.
\<close>

theorem convertAttributesSet_absent_counterexample:
  "convertAttributesSet sampleExternals \<lparr>data = JObj [(''sku'', JStr ''A1'')]\<rparr> =
     Inr \<lparr>data = JObj [(''sku'', JStr ''A1''), (''custom_attributes'', JObj [])]\<rparr> \<and>
   convertAttributesSet sampleExternals \<lparr>data = JObj [(''sku'', JStr ''A1'')]\<rparr> \<noteq>
     Inr \<lparr>data = JObj [(''sku'', JStr ''A1'')]\<rparr>"
  by (simp add: convertAttributesSet_def getOwn_def setOwn_def)

text \<open>
  C6, amended. For a response whose data is an object:
  \<^item> when \<open>custom_attributes\<close> is an array of \<open>{attribute_code, value}\<close> records, it is
    replaced by a flat object that maps each attribute code to its value (the last
    record with a given code wins);
  \<^item> when \<open>custom_attributes\<close> is absent (or \<open>undefined\<close>), the data gets
    \<open>custom_attributes = {}\<close>, the empty object;
  \<^item> when \<open>custom_attributes\<close> is present and not an array, the response is returned
    unchanged.
\<close>

theorem convertAttributesSet_shapes:
  assumes "data response = JObj d"
  shows "(getOwn d ''custom_attributes'' = JArr attributes \<and> (\<forall>a \<in> set attributes. isAttribute a) \<longrightarrow>
            (\<exists>flat. convertAttributesSet X response =
                      Inr (response\<lparr>data := JObj (setOwn ''custom_attributes'' (JObj flat) d)\<rparr>) \<and>
                    map_of flat = map_of (rev (map attributeEntry attributes)))) \<and>
         (getOwn d ''custom_attributes'' = JUndef \<longrightarrow>
            convertAttributesSet X response =
              Inr (response\<lparr>data := JObj (setOwn ''custom_attributes'' (JObj []) d)\<rparr>)) \<and>
         (getOwn d ''custom_attributes'' \<noteq> JUndef \<and> \<not> isArray (getOwn d ''custom_attributes'') \<longrightarrow>
            convertAttributesSet X response = Inr response)"
proof (intro conjI impI)
  assume h: "getOwn d ''custom_attributes'' = JArr attributes \<and> (\<forall>a \<in> set attributes. isAttribute a)"
  then obtain flat where f: "addAttributes X attributes [] = Inr flat"
    and m: "map_of flat = map_of [] ++ map_of (rev (map attributeEntry attributes))"
    using addAttributes_records [of attributes X "[]"] by blast
  have "convertAttributesSet X response =
          Inr (response\<lparr>data := JObj (setOwn ''custom_attributes'' (JObj flat) d)\<rparr>)"
    using assms h f by (simp add: convertAttributesSet_def)
  with m show "\<exists>flat. convertAttributesSet X response =
                      Inr (response\<lparr>data := JObj (setOwn ''custom_attributes'' (JObj flat) d)\<rparr>) \<and>
                    map_of flat = map_of (rev (map attributeEntry attributes))"
    by auto
next
  assume "getOwn d ''custom_attributes'' = JUndef"
  then show "convertAttributesSet X response =
              Inr (response\<lparr>data := JObj (setOwn ''custom_attributes'' (JObj []) d)\<rparr>)"
    using assms by (simp add: convertAttributesSet_def)
next
  assume "getOwn d ''custom_attributes'' \<noteq> JUndef \<and> \<not> isArray (getOwn d ''custom_attributes'')"
  then show "convertAttributesSet X response = Inr response"
    using assms by (cases "getOwn d ''custom_attributes''") (simp_all add: convertAttributesSet_def)
qed

theorem convertAttributesSet_shapes_witness:
  "(\<exists>flat. convertAttributesSet sampleExternals \<lparr>data = JObj sampleWithAttributes\<rparr> =
            Inr \<lparr>data = JObj [(''sku'', JStr ''A1''), (''custom_attributes'', JObj flat)]\<rparr> \<and>
          map_of flat = map_of [(''color'', JNum 5), (''url_key'', JStr ''shirt'')]) \<and>
   convertAttributesSet sampleExternals \<lparr>data = JObj sampleNoAttributes\<rparr> =
     Inr \<lparr>data = JObj [(''sku'', JStr ''A1''), (''custom_attributes'', JObj [])]\<rparr> \<and>
   convertAttributesSet sampleExternals \<lparr>data = JObj sampleFlatAttributes\<rparr> =
     Inr \<lparr>data = JObj sampleFlatAttributes\<rparr>"
proof (intro conjI)
  show "\<exists>flat. convertAttributesSet sampleExternals \<lparr>data = JObj sampleWithAttributes\<rparr> =
            Inr \<lparr>data = JObj [(''sku'', JStr ''A1''), (''custom_attributes'', JObj flat)]\<rparr> \<and>
          map_of flat = map_of [(''color'', JNum 5), (''url_key'', JStr ''shirt'')]"
    using convertAttributesSet_shapes
      [of "\<lparr>data = JObj sampleWithAttributes\<rparr>" sampleWithAttributes sampleAttributes sampleExternals]
    by (simp add: sampleWithAttributes_def sampleAttributes_def getOwn_def setOwn_def)
next
  show "convertAttributesSet sampleExternals \<lparr>data = JObj sampleNoAttributes\<rparr> =
     Inr \<lparr>data = JObj [(''sku'', JStr ''A1''), (''custom_attributes'', JObj [])]\<rparr>"
    using convertAttributesSet_shapes
      [of "\<lparr>data = JObj sampleNoAttributes\<rparr>" sampleNoAttributes "[]" sampleExternals]
    by (simp add: sampleNoAttributes_def getOwn_def setOwn_def)
next
  show "convertAttributesSet sampleExternals \<lparr>data = JObj sampleFlatAttributes\<rparr> =
     Inr \<lparr>data = JObj sampleFlatAttributes\<rparr>"
    using convertAttributesSet_shapes
      [of "\<lparr>data = JObj sampleFlatAttributes\<rparr>" sampleFlatAttributes "[]" sampleExternals]
    by (simp add: sampleFlatAttributes_def getOwn_def)
qed

subsection \<open>convertTotals\<close>

lemma findDiscountIndex_first:
  "\<lbrakk>i < length segs; isDiscount (segs ! i); \<forall>j < i. \<not> isDiscount (segs ! j);
    \<forall>s \<in> set segs. isObject s\<rbrakk> \<Longrightarrow> findDiscountIndex segs = Inr (Some i)"
proof (induction segs arbitrary: i)
  case Nil
  then show ?case by simp
next
  case (Cons s segs)
  from Cons.prems(4) obtain kvs where s: "s = JObj kvs" by (cases s) auto
  show ?case
  proof (cases i)
    case 0
    with Cons.prems(2) s show ?thesis by (simp add: isDiscount_def)
  next
    case (Suc k)
    from Cons.prems(3) Suc have "\<not> isDiscount s" by auto
    then have ns: "\<not> strictEq (getOwn kvs ''code'') (JStr ''discount'')"
      using s by (cases "getOwn kvs ''code''") (auto simp: isDiscount_def)
    have "findDiscountIndex segs = Inr (Some k)"
    proof (rule Cons.IH)
      show "k < length segs" using Cons.prems(1) Suc by simp
      show "isDiscount (segs ! k)" using Cons.prems(2) Suc by simp
      show "\<forall>j<k. \<not> isDiscount (segs ! j)" using Cons.prems(3) Suc by auto
      show "\<forall>s\<in>set segs. isObject s" using Cons.prems(4) by simp
    qed
    then show ?thesis using s ns Suc by simp
  qed
qed

lemma findDiscountIndex_none:
  "\<lbrakk>\<forall>s \<in> set segs. isObject s \<and> \<not> isDiscount s\<rbrakk> \<Longrightarrow> findDiscountIndex segs = Inr None"
proof (induction segs)
  case Nil
  then show ?case by simp
next
  case (Cons s segs)
  from Cons.prems obtain kvs where s: "s = JObj kvs" by (cases s) auto
  from Cons.prems have "\<not> isDiscount s" by simp
  then have ns: "\<not> strictEq (getOwn kvs ''code'') (JStr ''discount'')"
    using s by (cases "getOwn kvs ''code''") (auto simp: isDiscount_def)
  from Cons have "findDiscountIndex segs = Inr None" by simp
  then show ?case using s ns by simp
qed

lemma spliceInsert_at:
  "length (spliceInsert 1 x ys) = Suc (length ys)"
  "spliceInsert 1 x ys ! (min 1 (length ys)) = x"
  "spliceRemove (min 1 (length ys)) (spliceInsert 1 x ys) = ys"
  by (cases ys; simp add: spliceInsert_def spliceRemove_def)+

lemma splice_position:
  assumes "i < length xs"
  shows "length (spliceInsert 1 x (spliceRemove i xs)) = length xs"
    and "spliceInsert 1 x (spliceRemove i xs) ! (min 1 (length xs - 1)) = x"
    and "spliceRemove (min 1 (length xs - 1)) (spliceInsert 1 x (spliceRemove i xs)) = spliceRemove i xs"
proof -
  have len: "length (spliceRemove i xs) = length xs - 1" using assms by (simp add: spliceRemove_def)
  show "length (spliceInsert 1 x (spliceRemove i xs)) = length xs"
    using spliceInsert_at(1) [of x "spliceRemove i xs"] assms len by simp
  show "spliceInsert 1 x (spliceRemove i xs) ! (min 1 (length xs - 1)) = x"
    using spliceInsert_at(2) [of x "spliceRemove i xs"] len by simp
  show "spliceRemove (min 1 (length xs - 1)) (spliceInsert 1 x (spliceRemove i xs)) = spliceRemove i xs"
    using spliceInsert_at(3) [of "spliceRemove i xs" x] len by simp
qed

lemma setOwn_same: "getOwn d k = v \<Longrightarrow> v \<noteq> JUndef \<Longrightarrow> setOwn k v d = d"
  unfolding getOwn_def setOwn_def
  by (induction d) (auto split: option.splits if_splits)

text \<open>
  C3, amended. For a totals response whose converted data is an object with an array
  \<open>totalSegments\<close> of segment objects: if a segment has code 'discount', the first such
  segment ends up at index 1 when the list has at least two segments, and at index 0 when
  it is the only segment (index \<open>min 1 (length - 1)\<close>); the other segments keep their
  relative order (removing the moved segment from the result gives the input without it).
  When no segment has code 'discount', the data is returned unchanged.
\<close>

theorem convertTotals_discount_position:
  assumes ck: "convertKeys X (data response) = JObj d"
      and segs: "getOwn d ''totalSegments'' = JArr segs"
      and objs: "\<forall>s \<in> set segs. isObject s"
  shows "(\<forall>i. i < length segs \<and> isDiscount (segs ! i) \<and> (\<forall>j < i. \<not> isDiscount (segs ! j)) \<longrightarrow>
            (\<exists>segs'. convertTotals X response =
                       Inr (response\<lparr>data := JObj (setOwn ''totalSegments'' (JArr segs') d)\<rparr>) \<and>
                     length segs' = length segs \<and>
                     segs' ! (min 1 (length segs - 1)) = segs ! i \<and>
                     spliceRemove (min 1 (length segs - 1)) segs' = spliceRemove i segs)) \<and>
         ((\<forall>s \<in> set segs. \<not> isDiscount s) \<longrightarrow>
            convertTotals X response = Inr (response\<lparr>data := JObj d\<rparr>))"
proof (intro conjI allI impI)
  fix i
  assume h: "i < length segs \<and> isDiscount (segs ! i) \<and> (\<forall>j < i. \<not> isDiscount (segs ! j))"
  then have f: "findDiscountIndex segs = Inr (Some i)"
    using objs by (simp add: findDiscountIndex_first)
  let ?segs' = "spliceInsert 1 (segs ! i) (spliceRemove i segs)"
  have "convertTotals X response =
          Inr (response\<lparr>data := JObj (setOwn ''totalSegments'' (JArr ?segs') d)\<rparr>)"
    using ck segs f by (simp add: convertTotals_def reorderSegments_def)
  moreover from h have "i < length segs" by simp
  ultimately show "\<exists>segs'. convertTotals X response =
                       Inr (response\<lparr>data := JObj (setOwn ''totalSegments'' (JArr segs') d)\<rparr>) \<and>
                     length segs' = length segs \<and>
                     segs' ! (min 1 (length segs - 1)) = segs ! i \<and>
                     spliceRemove (min 1 (length segs - 1)) segs' = spliceRemove i segs"
    using splice_position [of i segs "segs ! i"] by blast
next
  assume "\<forall>s \<in> set segs. \<not> isDiscount s"
  with objs have "findDiscountIndex segs = Inr None" by (simp add: findDiscountIndex_none)
  then show "convertTotals X response = Inr (response\<lparr>data := JObj d\<rparr>)"
    using ck segs setOwn_same [of d "''totalSegments''" "JArr segs"]
    by (simp add: convertTotals_def reorderSegments_def)
qed


text \<open>
  C3 as stated fails for a list whose only segment is the discount: \<open>splice(1, 0, x)\<close>
  on the emptied list inserts at index 0, and the result has no index 1.
\<close>

theorem convertTotals_only_discount_counterexample:
  "convertTotals sampleExternals sampleTotalsOnlyDiscount =
     Inr \<lparr>data = JObj [(''totalSegments'', JArr [segment ''discount''])]\<rparr> \<and>
   [segment ''discount''] ! 0 = segment ''discount'' \<and> length [segment ''discount''] = 1"
  by (simp add: convertTotals_def reorderSegments_def sampleTotalsOnlyDiscount_def sampleExternals_def
      sampleConvertKeys_def sampleCamelCase_def segment_def getOwn_def setOwn_def spliceInsert_def spliceRemove_def)

lemma sampleTotals_result:
  "convertTotals sampleExternals sampleTotals =
     Inr \<lparr>data = JObj [(''totalSegments'',
        JArr [segment ''subtotal'', segment ''discount'', segment ''shipping'', segment ''grand_total''])]\<rparr>"
  by (simp add: convertTotals_def reorderSegments_def sampleTotals_def sampleExternals_def
      sampleConvertKeys_def sampleCamelCase_def segment_def getOwn_def setOwn_def spliceInsert_def spliceRemove_def)

theorem convertTotals_discount_position_witness:
  "(\<exists>segs'. convertTotals sampleExternals sampleTotals =
       Inr \<lparr>data = JObj [(''totalSegments'', JArr segs')]\<rparr> \<and>
       length segs' = 4 \<and> segs' ! 1 = segment ''discount'' \<and>
       spliceRemove 1 segs' = [segment ''subtotal'', segment ''shipping'', segment ''grand_total'']) \<and>
   convertTotals sampleExternals sampleTotalsNoDiscount = Inr sampleTotalsNoDiscount"
proof (intro conjI)
  let ?segs = "[segment ''subtotal'', segment ''shipping'', segment ''discount'', segment ''grand_total'']"
  let ?d = "[(''totalSegments'', JArr ?segs)]"
  have ck: "convertKeys sampleExternals (data sampleTotals) = JObj ?d"
    by (simp add: sampleExternals_def sampleTotals_def sampleConvertKeys_def sampleCamelCase_def segment_def)
  have segs: "getOwn ?d ''totalSegments'' = JArr ?segs" by (simp add: getOwn_def)
  have objs: "\<forall>s \<in> set ?segs. isObject s" by (simp add: segment_def)
  have first: "2 < length ?segs \<and> isDiscount (?segs ! 2) \<and> (\<forall>j < 2. \<not> isDiscount (?segs ! j))"
    by (simp add: isDiscount_def segment_def getOwn_def less_Suc_eq numeral_2_eq_2)
  from convertTotals_discount_position [OF ck segs objs] first
  have "\<exists>segs'. convertTotals sampleExternals sampleTotals =
                       Inr (sampleTotals\<lparr>data := JObj (setOwn ''totalSegments'' (JArr segs') ?d)\<rparr>) \<and>
                     length segs' = length ?segs \<and>
                     segs' ! (min 1 (length ?segs - 1)) = ?segs ! 2 \<and>
                     spliceRemove (min 1 (length ?segs - 1)) segs' = spliceRemove 2 ?segs"
    by blast
  then show "\<exists>segs'. convertTotals sampleExternals sampleTotals =
       Inr \<lparr>data = JObj [(''totalSegments'', JArr segs')]\<rparr> \<and>
       length segs' = 4 \<and> segs' ! 1 = segment ''discount'' \<and>
       spliceRemove 1 segs' = [segment ''subtotal'', segment ''shipping'', segment ''grand_total'']"
    by (simp add: sampleTotals_def setOwn_def spliceRemove_def eval_nat_numeral)
next
  let ?segs = "[segment ''subtotal'', segment ''grand_total'']"
  let ?d = "[(''totalSegments'', JArr ?segs)]"
  have ck: "convertKeys sampleExternals (data sampleTotalsNoDiscount) = JObj ?d"
    by (simp add: sampleExternals_def sampleTotalsNoDiscount_def sampleConvertKeys_def
        sampleCamelCase_def segment_def)
  have segs: "getOwn ?d ''totalSegments'' = JArr ?segs" by (simp add: getOwn_def)
  have objs: "\<forall>s \<in> set ?segs. isObject s" by (simp add: segment_def)
  have none: "\<forall>s \<in> set ?segs. \<not> isDiscount s"
    by (simp add: isDiscount_def segment_def getOwn_def)
  from convertTotals_discount_position [OF ck segs objs] none
  have "convertTotals sampleExternals sampleTotalsNoDiscount = Inr (sampleTotalsNoDiscount\<lparr>data := JObj ?d\<rparr>)"
    by blast
  then show "convertTotals sampleExternals sampleTotalsNoDiscount = Inr sampleTotalsNoDiscount"
    by (simp add: sampleTotalsNoDiscount_def segment_def)
qed

subsection \<open>convertProductData\<close>

lemma productPrices_price:
  assumes "productPrices price ea0 ea d = (d', ea')"
      and "truthy (getOwn ea0 ''minPrice'')" and "price = JNum 0"
  shows "getOwn d' ''price'' = getOwn ea0 ''minPrice''"
  using assms
  by (auto simp: productPrices_def Let_def getOwn_setOwn getOwn_deleteOwn split: if_splits)

lemma productBundleOptions_price:
  "productBundleOptions X ea0 ea d = Inr (d', ea') \<Longrightarrow> getOwn d' ''price'' = getOwn d ''price''"
  by (auto simp: productBundleOptions_def Let_def getOwn_setOwn split: if_splits json.splits sum.splits)

lemma productExtension_price:
  assumes "productExtension X price ea0 d = Inr (d', ea')"
      and "truthy (getOwn ea0 ''minPrice'')" and "price = JNum 0"
  shows "getOwn d' ''price'' = getOwn ea0 ''minPrice''"
proof -
  from assms(1) obtain da eaa db eab where
    "productPrices price ea0 eaa da = (db, eab)" and "productBundleOptions X ea0 eab db = Inr (d', ea')"
    by (auto simp: productExtension_def split: sum.splits prod.splits)
  then show ?thesis
    using productPrices_price [OF _ assms(2,3)] productBundleOptions_price by metis
qed

lemma productSeo_price:
  "productSeo customAttributes d = Inr d' \<Longrightarrow> getOwn d' ''price'' = getOwn d ''price''"
  by (auto simp: productSeo_def getOwn_setOwn split: sum.splits)

lemma convertProductObject_price:
  assumes r: "convertProductObject X d0 cur = Inr d"
      and ea: "getOwn d0 ''extensionAttributes'' = JObj ea"
      and min: "truthy (getOwn ea ''minPrice'')"
      and zero: "(if truthy (getOwn ea ''catalogDisplayPrice'') then getOwn ea ''catalogDisplayPrice''
                  else getOwn d0 ''price'') = JNum 0"
  shows "getOwn d ''price'' = getOwn ea ''minPrice''"
proof -
  from min have ne: "ea \<noteq> []" by (auto simp: getOwn_def)
  let ?price = "if truthy (getOwn ea ''catalogDisplayPrice'') then getOwn ea ''catalogDisplayPrice''
                  else getOwn d0 ''price''"
  from r ea ne obtain d6 d7 ea' d8 where
    ext: "productExtension X ?price ea d6 = Inr (d7, ea')" and
    d8: "d8 = setOwn ''extensionAttributes'' (JObj ea') d7" and
    fin: "d = d8 \<or> productSeo (getOwn d0 ''customAttributes'') d8 = Inr d"
    by (auto simp: convertProductObject_def Let_def split: sum.splits if_splits prod.splits)
  from productExtension_price [OF ext min zero] have "getOwn d7 ''price'' = getOwn ea ''minPrice''" .
  then have "getOwn d8 ''price'' = getOwn ea ''minPrice''" using d8 by (simp add: getOwn_setOwn)
  then show ?thesis using fin productSeo_price by metis
qed


lemmas product_eval =
  convertProductData_def convertAttributesSet_def convertProductObject_def productExtension_def
  productBreadcrumbs_def productPrices_def productBundleOptions_def productSeo_def
  convertPathToUrl_def strOf_def sampleExternals_def sampleConvertKeys_def sampleCamelCase_def
  getOwn_def setOwn_def deleteOwn_def resultProp_def Let_def

text \<open>
  C2 as stated fails in two ways. The price is \<open>catalogDisplayPrice || data.price\<close>: a
  catalogDisplayPrice that is present and 0 is falsy, so \<open>data.price\<close> (here 100) is
  used, the test \<open>price === 0\<close> fails and the price stays 100 although minPrice is 50.
  And a minPrice that is present but falsy (here \<open>null\<close>) is not copied: the price
  stays 0.
\<close>

theorem convertProductData_price_counterexample:
  "resultProp (convertProductData sampleExternals sampleProductZeroCatalogPrice (JStr ''EUR'')) ''price''
     = Inr (JNum 100) \<and>
   resultProp (convertProductData sampleExternals sampleProductNullMinPrice (JStr ''EUR'')) ''price''
     = Inr (JNum 0)"
  by (simp add: product_eval sampleProductZeroCatalogPrice_def sampleProductNullMinPrice_def)

text \<open>
  C2, amended. For every product response that convertProductData returns: if the
  price, which is the extension attribute catalogDisplayPrice when that is truthy
  (present and not 0) and \<open>data.price\<close> otherwise, is the number 0, and the extension
  attribute minPrice is truthy, then the returned product's \<open>price\<close> is that minPrice.
  The attributes are those of the data after convertAttributesSet and convertKeys.
\<close>

theorem convertProductData_price_fallback:
  assumes result: "convertProductData X response cur = Inr result"
      and attrs: "convertAttributesSet X response = Inr response1"
      and keys: "convertKeys X (data response1) = JObj d0"
      and ea: "getOwn d0 ''extensionAttributes'' = JObj ea"
      and min: "truthy (getOwn ea ''minPrice'')"
      and zero: "(if truthy (getOwn ea ''catalogDisplayPrice'') then getOwn ea ''catalogDisplayPrice''
                  else getOwn d0 ''price'') = JNum 0"
  shows "resultProp (Inr result) ''price'' = Inr (getOwn ea ''minPrice'')"
proof -
  from result attrs keys obtain d where
    obj: "convertProductObject X d0 (case cur of JUndef \<Rightarrow> JNull | c \<Rightarrow> c) = Inr d"
    and res: "result = response1\<lparr>data := JObj d\<rparr>"
    by (auto simp: convertProductData_def split: sum.splits)
  from convertProductObject_price [OF obj ea min zero] res show ?thesis
    by (simp add: resultProp_def)
qed

lemma sampleProductZeroPrice_result:
  "convertProductData sampleExternals sampleProductZeroPrice (JStr ''EUR'') =
     Inr \<lparr>data = JObj
         [(''sku'', JStr ''A1''), (''price'', JNum 50),
          (''customAttributes'', JObj [(''urlKey'', JStr ''shirt'')]),
          (''extensionAttributes'', JObj []),
          (''urlPath'', JStr ''/shirt.html''), (''priceAmount'', JNum 0),
          (''currency'', JStr ''EUR''), (''name'', JUndef),
          (''priceType'', JStr ''1''), (''thumbnail'', JUndef),
          (''gallery'', JUndef), (''minPrice'', JNum 50),
          (''maxPrice'', JNum 80), (''configurableOptions'', JArr []),
          (''description'', JUndef),
          (''seo'', JObj [(''title'', JUndef), (''description'', JUndef), (''keywords'', JUndef)])]\<rparr>"
  by (simp add: product_eval sampleProductZeroPrice_def)

theorem convertProductData_price_fallback_witness:
  "resultProp (convertProductData sampleExternals sampleProductZeroPrice (JStr ''EUR'')) ''price''
     = Inr (JNum 50)"
proof -
  let ?d0 = "[(''sku'', JStr ''A1''), (''price'', JNum 0),
              (''customAttributes'', JObj [(''urlKey'', JStr ''shirt'')]),
              (''extensionAttributes'', JObj [(''minPrice'', JNum 50), (''maxPrice'', JNum 80)])]"
  let ?ea = "[(''minPrice'', JNum 50), (''maxPrice'', JNum 80)]"
  let ?r1 = "\<lparr>data = JObj [(''sku'', JStr ''A1''), (''price'', JNum 0),
              (''custom_attributes'', JObj [(''url_key'', JStr ''shirt'')]),
              (''extension_attributes'', JObj [(''min_price'', JNum 50), (''max_price'', JNum 80)])]\<rparr>"
  have attrs: "convertAttributesSet sampleExternals sampleProductZeroPrice = Inr ?r1"
    by (simp add: convertAttributesSet_def sampleProductZeroPrice_def getOwn_def setOwn_def strOf_def)
  have keys: "convertKeys sampleExternals (data ?r1) = JObj ?d0"
    by (simp add: sampleExternals_def sampleConvertKeys_def sampleCamelCase_def)
  have ea: "getOwn ?d0 ''extensionAttributes'' = JObj ?ea" by (simp add: getOwn_def)
  have min: "truthy (getOwn ?ea ''minPrice'')" by (simp add: getOwn_def)
  have zero: "(if truthy (getOwn ?ea ''catalogDisplayPrice'') then getOwn ?ea ''catalogDisplayPrice''
                  else getOwn ?d0 ''price'') = JNum 0" by (simp add: getOwn_def)
  from convertProductData_price_fallback [OF sampleProductZeroPrice_result attrs keys ea min zero]
  show ?thesis by (simp add: sampleProductZeroPrice_result getOwn_def)
qed

section \<open>Properties of the handlers\<close>

text \<open>Unfolding the sample worlds, the sample backends and the helpers of the handlers.\<close>

lemmas world_eval =
  sampleWorld_def sampleWorldWithCart_def sampleWorldSignedIn_def sampleSession_def
  failingBackend_def httpError_def quoteBackend_def countingBackend_def recoveringBackend_def
  orderBackend_def sampleExternals_def sampleConvertKeys_def sampleCamelCase_def
  sampleCartInput_def sampleSignInInput_def
  call_def getCartPath_def sessionToken_def guestQuoteId_def strOf_def removeCartData_def
  newError_def startsWith_def bindE_def getOwn_def setOwn_def deleteOwn_def Let_def

subsection \<open>cart\<close>

lemma getCartPath_with_cart:
  "cart (session w) = Some c \<Longrightarrow>
   getCartPath X w = Inr (if truthy (sessionToken (session w)) then ''/carts/mine''
                          else ''/guest-carts/'' @ strOf X (quoteId c))"
  by (simp add: getCartPath_def)

lemma cartHandler_returns: "\<exists>r. fst (cartHandler X be w) = Inr r"
proof (cases "cart (session w)")
  case None
  then show ?thesis by (simp add: cartHandler_def)
next
  case (Some c)
  then show ?thesis
    by (simp add: cartHandler_def getCartPath_with_cart call_def Let_def split: sum.splits)
qed

lemma cartHandler_no_quote:
  assumes "case cart (session w) of None \<Rightarrow> True | Some c \<Rightarrow> \<not> truthy (quoteId c)"
  shows "cartHandler X be w = (Inr emptyCart, w)"
  using assms by (simp add: cartHandler_def split: option.splits)

lemma cartHandler_fetch_fails:
  assumes c: "cart (session w) = Some c" and q: "truthy (quoteId c)"
      and p: "getCartPath X w = Inr cartPath"
      and f: "(\<exists>e. be (requests w) (cartRequest cartPath) = Inl e) \<or>
              (\<exists>e. be (requests w @ [cartRequest cartPath]) (totalsRequest cartPath) = Inl e)"
  shows "cartHandler X be w =
           (Inr emptyCart,
            removeCartData (w\<lparr>requests := requests w @ [cartRequest cartPath, totalsRequest cartPath]\<rparr>))"
  using assms
  by (auto simp: cartHandler_def call_def Let_def cartRequest_def totalsRequest_def split: sum.splits)

text \<open>
  C8. The cart handler never throws: its outcome is always a returned value. For a
  session without a cart, or whose cart has a falsy quote id, it returns the empty cart
  \<open>{active: false, itemsQty: 0, items: [], totals: []}\<close> and leaves the world as it was:
  no request is sent. With a quote id, if either of the two fetches fails it returns the
  same empty cart and the session has no cart afterwards (removeCartData ran; both
  requests had been sent). The quote id in the session is taken to be a primitive value:
  getCartPath, which runs before the \<open>try\<close>, puts it into a template string, and only
  the string coercion of a primitive is certain not to throw.
\<close>

theorem cart_never_throws:
  assumes "case cart (session w) of None \<Rightarrow> True | Some c \<Rightarrow> isPrimitive (quoteId c)"
  shows
  "(\<exists>r. fst (cartHandler X be w) = Inr r) \<and>
   ((case cart (session w) of None \<Rightarrow> True | Some c \<Rightarrow> \<not> truthy (quoteId c)) \<longrightarrow>
      cartHandler X be w =
        (Inr (JObj [(''active'', JBool False), (''itemsQty'', JNum 0), (''items'', JArr []),
                    (''totals'', JArr [])]), w)) \<and>
   (\<forall>c cartPath.
      cart (session w) = Some c \<and> truthy (quoteId c) \<and> getCartPath X w = Inr cartPath \<and>
      ((\<exists>e. be (requests w) (cartRequest cartPath) = Inl e) \<or>
       (\<exists>e. be (requests w @ [cartRequest cartPath]) (totalsRequest cartPath) = Inl e)) \<longrightarrow>
      cartHandler X be w =
        (Inr (JObj [(''active'', JBool False), (''itemsQty'', JNum 0), (''items'', JArr []),
                    (''totals'', JArr [])]),
         removeCartData (w\<lparr>requests := requests w @ [cartRequest cartPath, totalsRequest cartPath]\<rparr>)) \<and>
      cart (session (snd (cartHandler X be w))) = None)"
proof (intro conjI allI impI)
  show "\<exists>r. fst (cartHandler X be w) = Inr r" by (rule cartHandler_returns)
next
  assume "case cart (session w) of None \<Rightarrow> True | Some c \<Rightarrow> \<not> truthy (quoteId c)"
  then show "cartHandler X be w =
        (Inr (JObj [(''active'', JBool False), (''itemsQty'', JNum 0), (''items'', JArr []),
                    (''totals'', JArr [])]), w)"
    by (rule cartHandler_no_quote [unfolded emptyCart_def])
next
  fix c cartPath
  assume h: "cart (session w) = Some c \<and> truthy (quoteId c) \<and> getCartPath X w = Inr cartPath \<and>
      ((\<exists>e. be (requests w) (cartRequest cartPath) = Inl e) \<or>
       (\<exists>e. be (requests w @ [cartRequest cartPath]) (totalsRequest cartPath) = Inl e))"
  then show "cartHandler X be w =
        (Inr (JObj [(''active'', JBool False), (''itemsQty'', JNum 0), (''items'', JArr []),
                    (''totals'', JArr [])]),
         removeCartData (w\<lparr>requests := requests w @ [cartRequest cartPath, totalsRequest cartPath]\<rparr>))"
    using cartHandler_fetch_fails [unfolded emptyCart_def] by blast
  then show "cart (session (snd (cartHandler X be w))) = None"
    by (simp add: removeCartData_def)
qed

theorem cart_never_throws_witness:
  "(case cart (session sampleWorld) of None \<Rightarrow> True | Some c \<Rightarrow> isPrimitive (quoteId c)) \<and>
   (case cart (session sampleWorldWithCart) of None \<Rightarrow> True | Some c \<Rightarrow> isPrimitive (quoteId c)) \<and>
   cartHandler sampleExternals (failingBackend 500 ''Internal Server Error'') sampleWorld =
     (Inr (JObj [(''active'', JBool False), (''itemsQty'', JNum 0), (''items'', JArr []),
                 (''totals'', JArr [])]), sampleWorld) \<and>
   fst (cartHandler sampleExternals (failingBackend 500 ''Internal Server Error'') sampleWorldWithCart) =
     Inr (JObj [(''active'', JBool False), (''itemsQty'', JNum 0), (''items'', JArr []),
                (''totals'', JArr [])]) \<and>
   cart (session (snd (cartHandler sampleExternals (failingBackend 500 ''Internal Server Error'')
                         sampleWorldWithCart))) = None"
proof -
  let ?be = "failingBackend 500 ''Internal Server Error''"
  have p1: "case cart (session sampleWorld) of None \<Rightarrow> True | Some c \<Rightarrow> isPrimitive (quoteId c)"
    by (simp add: sampleWorld_def sampleSession_def)
  have p2: "case cart (session sampleWorldWithCart) of None \<Rightarrow> True | Some c \<Rightarrow> isPrimitive (quoteId c)"
    by (simp add: sampleWorldWithCart_def sampleSession_def)
  have a: "case cart (session sampleWorld) of None \<Rightarrow> True | Some c \<Rightarrow> \<not> truthy (quoteId c)"
    by (simp add: sampleWorld_def sampleSession_def)
  have b: "cart (session sampleWorldWithCart) = Some \<lparr>quoteId = JStr ''q1''\<rparr> \<and>
           truthy (quoteId \<lparr>quoteId = JStr ''q1''\<rparr>) \<and>
           getCartPath sampleExternals sampleWorldWithCart = Inr ''/guest-carts/q1'' \<and>
           ((\<exists>e. ?be (requests sampleWorldWithCart) (cartRequest ''/guest-carts/q1'') = Inl e) \<or>
            (\<exists>e. ?be (requests sampleWorldWithCart @ [cartRequest ''/guest-carts/q1''])
                    (totalsRequest ''/guest-carts/q1'') = Inl e))"
    by (simp add: world_eval)
  from cart_never_throws [of sampleWorld sampleExternals ?be, OF p1] a
  have 1: "cartHandler sampleExternals ?be sampleWorld =
     (Inr (JObj [(''active'', JBool False), (''itemsQty'', JNum 0), (''items'', JArr []),
                 (''totals'', JArr [])]), sampleWorld)" by blast
  from cart_never_throws [of sampleWorldWithCart sampleExternals ?be, OF p2] b
  have 2: "cartHandler sampleExternals ?be sampleWorldWithCart =
        (Inr (JObj [(''active'', JBool False), (''itemsQty'', JNum 0), (''items'', JArr []),
                    (''totals'', JArr [])]),
         removeCartData (sampleWorldWithCart\<lparr>requests := requests sampleWorldWithCart @
            [cartRequest ''/guest-carts/q1'', totalsRequest ''/guest-carts/q1'']\<rparr>)) \<and>
      cart (session (snd (cartHandler sampleExternals ?be sampleWorldWithCart))) = None"
    by blast
  from p1 p2 1 2 show ?thesis by (simp add: removeCartData_def)
qed

subsection \<open>ensureCart\<close>

lemma ensureCart_present:
  "cart (session w) = Some c \<Longrightarrow> truthy (quoteId c) \<Longrightarrow> ensureCart be w = (Inr c, w)"
  by (simp add: ensureCart_def)

lemma ensureCart_create:
  assumes "case cart (session w) of None \<Rightarrow> True | Some c \<Rightarrow> \<not> truthy (quoteId c)"
  shows "ensureCart be w =
           (case be (requests w) (createCartRequest (session w)) of
              Inl e \<Rightarrow> (Inl e, w\<lparr>requests := requests w @ [createCartRequest (session w)]\<rparr>)
            | Inr d \<Rightarrow>
                (Inr \<lparr>quoteId = d\<rparr>,
                 w\<lparr>requests := requests w @ [createCartRequest (session w)],
                   session := (session w)\<lparr>cart := Some \<lparr>quoteId = d\<rparr>\<rparr>\<rparr>))"
  using assms
  by (auto simp: ensureCart_def call_def createCartRequest_def Let_def split: option.splits sum.splits)

text \<open>
  C10 as stated fails when the creating POST does not leave a truthy quote id behind.
  With a backend that numbers its answers from 0, the first run stores \<open>{quoteId: 0}\<close>;
  0 is falsy, so the second run creates another cart and stores \<open>{quoteId: 1}\<close>. With
  a backend whose first answer is a 503, the first run throws and leaves no cart, and the
  second run stores one.
\<close>

theorem ensureCart_twice_counterexample:
  "fst (ensureCart countingBackend sampleWorld) = Inr \<lparr>quoteId = JNum 0\<rparr> \<and>
   cart (session (snd (ensureCart countingBackend sampleWorld))) = Some \<lparr>quoteId = JNum 0\<rparr> \<and>
   fst (ensureCart countingBackend (snd (ensureCart countingBackend sampleWorld))) =
     Inr \<lparr>quoteId = JNum 1\<rparr> \<and>
   cart (session (snd (ensureCart countingBackend (snd (ensureCart countingBackend sampleWorld))))) =
     Some \<lparr>quoteId = JNum 1\<rparr> \<and>
   cart (session (snd (ensureCart recoveringBackend sampleWorld))) = None \<and>
   cart (session (snd (ensureCart recoveringBackend (snd (ensureCart recoveringBackend sampleWorld))))) =
     Some \<lparr>quoteId = JStr ''q2''\<rparr>"
  by (simp add: ensureCart_def world_eval)

text \<open>
  C10, amended. If \<open>session.cart\<close> holds a truthy quoteId, ensureCart returns that cart
  and leaves the world unchanged (no request). Otherwise it sends one POST, to
  \<open>/carts/mine\<close> when the customer token is truthy and to \<open>/guest-carts\<close> otherwise, and
  when that resolves it stores \<open>{quoteId: response.data}\<close> in \<open>session.cart\<close> and returns
  it. Whenever a run returned a cart with a truthy quoteId, running ensureCart again
  (against any backend) returns the same cart and changes nothing.
\<close>

theorem ensureCart_idempotent:
  "(\<forall>c. cart (session w) = Some c \<and> truthy (quoteId c) \<longrightarrow> ensureCart be w = (Inr c, w)) \<and>
   (\<forall>d. (case cart (session w) of None \<Rightarrow> True | Some c \<Rightarrow> \<not> truthy (quoteId c)) \<and>
        be (requests w) (createCartRequest (session w)) = Inr d \<longrightarrow>
        ensureCart be w =
          (Inr \<lparr>quoteId = d\<rparr>,
           w\<lparr>requests := requests w @ [createCartRequest (session w)],
             session := (session w)\<lparr>cart := Some \<lparr>quoteId = d\<rparr>\<rparr>\<rparr>)) \<and>
   (\<forall>c w1. ensureCart be w = (Inr c, w1) \<and> truthy (quoteId c) \<longrightarrow>
        ensureCart be' w1 = (Inr c, w1))"
proof (intro conjI allI impI)
  fix c assume "cart (session w) = Some c \<and> truthy (quoteId c)"
  then show "ensureCart be w = (Inr c, w)" by (simp add: ensureCart_present)
next
  fix d
  assume "(case cart (session w) of None \<Rightarrow> True | Some c \<Rightarrow> \<not> truthy (quoteId c)) \<and>
        be (requests w) (createCartRequest (session w)) = Inr d"
  then show "ensureCart be w =
          (Inr \<lparr>quoteId = d\<rparr>,
           w\<lparr>requests := requests w @ [createCartRequest (session w)],
             session := (session w)\<lparr>cart := Some \<lparr>quoteId = d\<rparr>\<rparr>\<rparr>)"
    by (simp add: ensureCart_create)
next
  fix c w1
  assume h: "ensureCart be w = (Inr c, w1) \<and> truthy (quoteId c)"
  have "cart (session w1) = Some c"
  proof (cases "case cart (session w) of None \<Rightarrow> True | Some c \<Rightarrow> \<not> truthy (quoteId c)")
    case True
    from ensureCart_create [OF True, of be] h show ?thesis
      by (auto split: sum.splits)
  next
    case False
    then obtain c' where "cart (session w) = Some c'" "truthy (quoteId c')"
      by (auto split: option.splits)
    with h show ?thesis by (simp add: ensureCart_present)
  qed
  with h show "ensureCart be' w1 = (Inr c, w1)" by (simp add: ensureCart_present)
qed

theorem ensureCart_idempotent_witness:
  "ensureCart quoteBackend sampleWorldWithCart = (Inr \<lparr>quoteId = JStr ''q1''\<rparr>, sampleWorldWithCart) \<and>
   fst (ensureCart quoteBackend sampleWorld) = Inr \<lparr>quoteId = JStr ''q9''\<rparr> \<and>
   cart (session (snd (ensureCart quoteBackend sampleWorld))) = Some \<lparr>quoteId = JStr ''q9''\<rparr> \<and>
   requests (snd (ensureCart quoteBackend sampleWorld)) =
     [\<lparr>reqMethod = POST, reqPath = ''/guest-carts'', reqBody = JUndef\<rparr>] \<and>
   ensureCart countingBackend (snd (ensureCart quoteBackend sampleWorld)) =
     ensureCart quoteBackend sampleWorld"
proof -
  have a: "cart (session sampleWorldWithCart) = Some \<lparr>quoteId = JStr ''q1''\<rparr> \<and>
           truthy (quoteId \<lparr>quoteId = JStr ''q1''\<rparr>)"
    by (simp add: world_eval)
  have b: "(case cart (session sampleWorld) of None \<Rightarrow> True | Some c \<Rightarrow> \<not> truthy (quoteId c)) \<and>
           quoteBackend (requests sampleWorld) (createCartRequest (session sampleWorld)) = Inr (JStr ''q9'')"
    by (simp add: world_eval)
  from ensureCart_idempotent [of sampleWorldWithCart quoteBackend] a
  have 1: "ensureCart quoteBackend sampleWorldWithCart = (Inr \<lparr>quoteId = JStr ''q1''\<rparr>, sampleWorldWithCart)"
    by blast
  from ensureCart_idempotent [of sampleWorld quoteBackend] b
  have 2: "ensureCart quoteBackend sampleWorld =
          (Inr \<lparr>quoteId = JStr ''q9''\<rparr>,
           sampleWorld\<lparr>requests := requests sampleWorld @ [createCartRequest (session sampleWorld)],
             session := (session sampleWorld)\<lparr>cart := Some \<lparr>quoteId = JStr ''q9''\<rparr>\<rparr>\<rparr>)"
    by blast
  let ?w1 = "sampleWorld\<lparr>requests := requests sampleWorld @ [createCartRequest (session sampleWorld)],
             session := (session sampleWorld)\<lparr>cart := Some \<lparr>quoteId = JStr ''q9''\<rparr>\<rparr>\<rparr>"
  from ensureCart_idempotent [of sampleWorld quoteBackend countingBackend] 2
  have 3: "ensureCart countingBackend ?w1 = (Inr \<lparr>quoteId = JStr ''q9''\<rparr>, ?w1)"
    by simp
  from 1 2 3 show ?thesis
    by (simp add: createCartRequest_def sampleWorld_def sampleSession_def sessionToken_def)
qed

subsection \<open>addToCart\<close>

lemma addToCart_post_fails:
  assumes "ensureCart be w = (Inr cartData, w1)"
      and "getCartPath X w1 = Inr cartPath"
      and "addToCartProduct input cartData = Inr product"
      and "be (requests w1) (addToCartRequest cartPath product) = Inl ex"
  shows "addToCart X be input w =
           (case addToCartCatch ex (w1\<lparr>requests := requests w1 @ [addToCartRequest cartPath product]\<rparr>) of
              (ex', w3) \<Rightarrow> (Inl ex', w3))"
  using assms by (simp add: addToCart_def call_def addToCartRequest_def bindE_def)

text \<open>
  C4 as stated fails for the second translation: the test for "No such entity with
  cartId" is the \<open>else\<close> branch of \<open>if (e.statusCode === 400)\<close>. With status 400 and
  that message the error is rethrown as it came, without a code, and the session keeps
  its cart.
\<close>

theorem addToCart_no_such_entity_400_counterexample:
  "addToCart sampleExternals (failingBackend 400 ''No such entity with cartId = 12'') sampleCartInput
     sampleWorldWithCart =
     (Inl (Thrown (httpError 400 ''No such entity with cartId = 12'')),
      sampleWorldWithCart\<lparr>requests :=
        [addToCartRequest ''/guest-carts/q1''
           (JObj [(''cart_item'', JObj [(''sku'', JStr ''A1''), (''qty'', JNum 1), (''quote_id'', JStr ''q1'')])])]\<rparr>) \<and>
   code (httpError 400 ''No such entity with cartId = 12'') = None \<and>
   cart (session (snd (addToCart sampleExternals (failingBackend 400 ''No such entity with cartId = 12'')
                         sampleCartInput sampleWorldWithCart))) = Some \<lparr>quoteId = JStr ''q1''\<rparr>"
  by (simp add: addToCart_def ensureCart_def addToCartProduct_def addToCartCatch_def addToCartRequest_def
      world_eval)

text \<open>
  C4, amended. When the POST of addToCart fails with status code 400 and a message
  beginning with "We don't have as many", addToCart rethrows the error with code
  STOCK_TOO_LOW, userMessage = true and noLogging = true. When it fails with a status
  code other than 400 and a message beginning with "No such entity with cartId",
  addToCart removes the cart from the session and rethrows the error with code
  INVALID_CART.
\<close>

theorem addToCart_error_translation:
  assumes "ensureCart be w = (Inr cartData, w1)"
      and "getCartPath X w1 = Inr cartPath"
      and "addToCartProduct input cartData = Inr product"
      and "be (requests w1) (addToCartRequest cartPath product) = Inl (Thrown e)"
  shows "(statusCode e = Some 400 \<and> startsWith ''We don't have as many'' (message e) \<longrightarrow>
            addToCart X be input w =
              (Inl (Thrown (e\<lparr>code := Some ''STOCK_TOO_LOW'', userMessage := True, noLogging := True\<rparr>)),
               w1\<lparr>requests := requests w1 @ [addToCartRequest cartPath product]\<rparr>)) \<and>
         (statusCode e \<noteq> Some 400 \<and> startsWith ''No such entity with cartId'' (message e) \<longrightarrow>
            addToCart X be input w =
              (Inl (Thrown (e\<lparr>code := Some ''INVALID_CART''\<rparr>)),
               removeCartData (w1\<lparr>requests := requests w1 @ [addToCartRequest cartPath product]\<rparr>)) \<and>
            cart (session (snd (addToCart X be input w))) = None)"
  using addToCart_post_fails [OF assms]
  by (auto simp: addToCartCatch_def removeCartData_def)

theorem addToCart_error_translation_witness:
  "fst (addToCart sampleExternals (failingBackend 400 ''We don't have as many items as you requested.'')
          sampleCartInput sampleWorldWithCart) =
     Inl (Thrown \<lparr>statusCode = Some 400, message = ''We don't have as many items as you requested.'',
                   code = Some ''STOCK_TOO_LOW'', userMessage = True, noLogging = True\<rparr>) \<and>
   fst (addToCart sampleExternals (failingBackend 404 ''No such entity with cartId = 12'')
          sampleCartInput sampleWorldWithCart) =
     Inl (Thrown \<lparr>statusCode = Some 404, message = ''No such entity with cartId = 12'',
                   code = Some ''INVALID_CART'', userMessage = False, noLogging = False\<rparr>) \<and>
   cart (session (snd (addToCart sampleExternals (failingBackend 404 ''No such entity with cartId = 12'')
                         sampleCartInput sampleWorldWithCart))) = None"
proof -
  let ?product = "JObj [(''cart_item'', JObj [(''sku'', JStr ''A1''), (''qty'', JNum 1), (''quote_id'', JStr ''q1'')])]"
  have e: "ensureCart be sampleWorldWithCart = (Inr \<lparr>quoteId = JStr ''q1''\<rparr>, sampleWorldWithCart)" for be
    by (simp add: ensureCart_def world_eval)
  have p: "getCartPath sampleExternals sampleWorldWithCart = Inr ''/guest-carts/q1''"
    by (simp add: world_eval)
  have b: "addToCartProduct sampleCartInput \<lparr>quoteId = JStr ''q1''\<rparr> = Inr ?product"
    by (simp add: addToCartProduct_def world_eval)
  have f: "failingBackend status msg (requests sampleWorldWithCart) (addToCartRequest ''/guest-carts/q1'' ?product) =
             Inl (Thrown (httpError status msg))" for status msg
    by (simp add: failingBackend_def)
  from addToCart_error_translation
         [OF e [of "failingBackend 400 ''We don't have as many items as you requested.''"] p b
             f [of 400 "''We don't have as many items as you requested.''"]]
  have 1: "fst (addToCart sampleExternals (failingBackend 400 ''We don't have as many items as you requested.'')
          sampleCartInput sampleWorldWithCart) =
     Inl (Thrown \<lparr>statusCode = Some 400, message = ''We don't have as many items as you requested.'',
                   code = Some ''STOCK_TOO_LOW'', userMessage = True, noLogging = True\<rparr>)"
    by (simp add: httpError_def startsWith_def)
  from addToCart_error_translation
         [OF e [of "failingBackend 404 ''No such entity with cartId = 12''"] p b
             f [of 404 "''No such entity with cartId = 12''"]]
  have "addToCart sampleExternals (failingBackend 404 ''No such entity with cartId = 12'')
          sampleCartInput sampleWorldWithCart =
     (Inl (Thrown ((httpError 404 ''No such entity with cartId = 12'')\<lparr>code := Some ''INVALID_CART''\<rparr>)),
      removeCartData (sampleWorldWithCart\<lparr>requests := requests sampleWorldWithCart @
         [addToCartRequest ''/guest-carts/q1'' ?product]\<rparr>)) \<and>
   cart (session (snd (addToCart sampleExternals (failingBackend 404 ''No such entity with cartId = 12'')
                         sampleCartInput sampleWorldWithCart))) = None"
    by (simp add: httpError_def startsWith_def removeCartData_def)
  then have 2: "fst (addToCart sampleExternals (failingBackend 404 ''No such entity with cartId = 12'')
          sampleCartInput sampleWorldWithCart) =
     Inl (Thrown \<lparr>statusCode = Some 404, message = ''No such entity with cartId = 12'',
                   code = Some ''INVALID_CART'', userMessage = False, noLogging = False\<rparr>) \<and>
   cart (session (snd (addToCart sampleExternals (failingBackend 404 ''No such entity with cartId = 12'')
                         sampleCartInput sampleWorldWithCart))) = None"
    by (simp add: httpError_def removeCartData_def)
  from 1 2 show ?thesis by simp
qed

subsection \<open>Which errors are marked user-visible\<close>

lemma signIn_fails:
  assumes "be (requests w) (signInRequest input (session w)) = Inl ex"
  shows "signIn X be input w =
           (Inl (signInCatch ex), w\<lparr>requests := requests w @ [signInRequest input (session w)]\<rparr>)"
  using assms by (simp add: signIn_def call_def signInRequest_def)

lemma signUp_fails:
  assumes "be (requests w) (signUpRequest input (session w)) = Inl ex"
  shows "signUp X be input w =
           (Inl (signUpCatch ex), w\<lparr>requests := requests w @ [signUpRequest input (session w)]\<rparr>)"
  using assms by (simp add: signUp_def call_def signUpRequest_def)

lemma changeCustomerPassword_fails:
  assumes "truthy (sessionToken (session w))"
      and "be (requests w) (changePasswordRequest input) = Inl ex"
  shows "changeCustomerPassword be input w =
           (Inl (changeCustomerPasswordCatch ex), w\<lparr>requests := requests w @ [changePasswordRequest input]\<rparr>)"
  using assms by (simp add: changeCustomerPassword_def call_def changePasswordRequest_def)

lemma applyCoupon_fails:
  assumes "cart (session w) = Some c" and "truthy (quoteId c)"
      and "getCartPath X w = Inr route"
      and "be (requests w) (couponRequest X route input) = Inl ex"
  shows "applyCoupon X be input w =
           (Inl (applyCouponCatch ex), w\<lparr>requests := requests w @ [couponRequest X route input]\<rparr>)"
  using assms by (simp add: applyCoupon_def call_def couponRequest_def)

lemma placeOrder_fails:
  assumes "cart (session w) = Some c" and "truthy (quoteId c)"
      and "getCartPath X w = Inr cartPath"
      and "be (requests w) (placeOrderRequest cartPath input) = Inl ex"
  shows "placeOrder X be input w =
           (Inl (placeOrderCatch ex), w\<lparr>requests := requests w @ [placeOrderRequest cartPath input]\<rparr>)"
  using assms by (simp add: placeOrder_def performCartAction_def call_def placeOrderRequest_def)

text \<open>
  C1 as stated fails for 401, 404 and 503: signIn marks a 401 user-visible whatever
  its message is, and so do applyCoupon for a 404 and changeCustomerPassword for a 503.
\<close>

theorem error_marking_counterexample:
  "userVisible (signIn sampleExternals (failingBackend 401 ''x'') sampleSignInInput sampleWorld) \<and>
   userVisible (signIn sampleExternals (failingBackend 401 ''Invalid login or password.'')
                  sampleSignInInput sampleWorld) \<and>
   userVisible (applyCoupon sampleExternals (failingBackend 404 ''x'') [(''couponCode'', JStr ''SALE'')]
                  sampleWorldWithCart) \<and>
   userVisible (changeCustomerPassword (failingBackend 503 ''x'') [] sampleWorldSignedIn)"
  by (simp add: userVisible_def signIn_def signInCatch_def applyCoupon_def applyCouponCatch_def
      changeCustomerPassword_def changeCustomerPasswordCatch_def world_eval)

text \<open>
  C1, amended. For an error thrown by the handler's backend call and not yet marked:
  signIn marks it user-visible exactly when its status code is 401, signUp when it is
  400, changeCustomerPassword when it is 401 or 503, applyCoupon when it is 404 and
  placeOrder when it is 400, in each case whatever the message is. Only addToCart looks
  at the message: it marks the error exactly when the status code is 400 and the message
  begins with "We don't have as many".
\<close>

theorem error_marking_by_status:
  assumes "\<not> userMessage e"
  shows "(be (requests w) (signInRequest input (session w)) = Inl (Thrown e) \<longrightarrow>
            userVisible (signIn X be input w) = (statusCode e = Some 401)) \<and>
         (be (requests w) (signUpRequest input (session w)) = Inl (Thrown e) \<longrightarrow>
            userVisible (signUp X be input w) = (statusCode e = Some 400)) \<and>
         (truthy (sessionToken (session w)) \<and>
          be (requests w) (changePasswordRequest input) = Inl (Thrown e) \<longrightarrow>
            userVisible (changeCustomerPassword be input w) =
              (statusCode e = Some 401 \<or> statusCode e = Some 503)) \<and>
         (\<forall>c route. cart (session w) = Some c \<and> truthy (quoteId c) \<and> getCartPath X w = Inr route \<and>
            be (requests w) (couponRequest X route input) = Inl (Thrown e) \<longrightarrow>
            userVisible (applyCoupon X be input w) = (statusCode e = Some 404)) \<and>
         (\<forall>c cartPath. cart (session w) = Some c \<and> truthy (quoteId c) \<and> getCartPath X w = Inr cartPath \<and>
            be (requests w) (placeOrderRequest cartPath input) = Inl (Thrown e) \<longrightarrow>
            userVisible (placeOrder X be input w) = (statusCode e = Some 400)) \<and>
         (\<forall>cartData w1 cartPath product.
            ensureCart be w = (Inr cartData, w1) \<and> getCartPath X w1 = Inr cartPath \<and>
            addToCartProduct input cartData = Inr product \<and>
            be (requests w1) (addToCartRequest cartPath product) = Inl (Thrown e) \<longrightarrow>
            userVisible (addToCart X be input w) =
              (statusCode e = Some 400 \<and> startsWith ''We don't have as many'' (message e)))"
proof (intro conjI allI impI)
  assume "be (requests w) (signInRequest input (session w)) = Inl (Thrown e)"
  then have "signIn X be input w =
           (Inl (signInCatch (Thrown e)), w\<lparr>requests := requests w @ [signInRequest input (session w)]\<rparr>)"
    by (simp add: signIn_fails)
  with assms show "userVisible (signIn X be input w) = (statusCode e = Some 401)"
    by (simp add: userVisible_def signInCatch_def)
next
  assume "be (requests w) (signUpRequest input (session w)) = Inl (Thrown e)"
  then have "signUp X be input w =
           (Inl (signUpCatch (Thrown e)), w\<lparr>requests := requests w @ [signUpRequest input (session w)]\<rparr>)"
    by (simp add: signUp_fails)
  with assms show "userVisible (signUp X be input w) = (statusCode e = Some 400)"
    by (simp add: userVisible_def signUpCatch_def)
next
  assume "truthy (sessionToken (session w)) \<and>
          be (requests w) (changePasswordRequest input) = Inl (Thrown e)"
  then have "changeCustomerPassword be input w =
           (Inl (changeCustomerPasswordCatch (Thrown e)), w\<lparr>requests := requests w @ [changePasswordRequest input]\<rparr>)"
    by (simp add: changeCustomerPassword_fails)
  with assms show "userVisible (changeCustomerPassword be input w) =
              (statusCode e = Some 401 \<or> statusCode e = Some 503)"
    by (simp add: userVisible_def changeCustomerPasswordCatch_def)
next
  fix c route
  assume "cart (session w) = Some c \<and> truthy (quoteId c) \<and> getCartPath X w = Inr route \<and>
            be (requests w) (couponRequest X route input) = Inl (Thrown e)"
  then have "applyCoupon X be input w =
           (Inl (applyCouponCatch (Thrown e)), w\<lparr>requests := requests w @ [couponRequest X route input]\<rparr>)"
    by (simp add: applyCoupon_fails)
  with assms show "userVisible (applyCoupon X be input w) = (statusCode e = Some 404)"
    by (simp add: userVisible_def applyCouponCatch_def)
next
  fix c cartPath
  assume "cart (session w) = Some c \<and> truthy (quoteId c) \<and> getCartPath X w = Inr cartPath \<and>
            be (requests w) (placeOrderRequest cartPath input) = Inl (Thrown e)"
  then have "placeOrder X be input w =
           (Inl (placeOrderCatch (Thrown e)), w\<lparr>requests := requests w @ [placeOrderRequest cartPath input]\<rparr>)"
    by (simp add: placeOrder_fails)
  with assms show "userVisible (placeOrder X be input w) = (statusCode e = Some 400)"
    by (simp add: userVisible_def placeOrderCatch_def)
next
  fix cartData w1 cartPath product
  assume "ensureCart be w = (Inr cartData, w1) \<and> getCartPath X w1 = Inr cartPath \<and>
            addToCartProduct input cartData = Inr product \<and>
            be (requests w1) (addToCartRequest cartPath product) = Inl (Thrown e)"
  then have "addToCart X be input w =
           (case addToCartCatch (Thrown e) (w1\<lparr>requests := requests w1 @ [addToCartRequest cartPath product]\<rparr>) of
              (ex', w3) \<Rightarrow> (Inl ex', w3))"
    by (simp add: addToCart_post_fails)
  with assms show "userVisible (addToCart X be input w) =
              (statusCode e = Some 400 \<and> startsWith ''We don't have as many'' (message e))"
    by (simp add: userVisible_def addToCartCatch_def)
qed

theorem error_marking_by_status_witness:
  "userVisible (signIn sampleExternals (failingBackend 401 ''x'') sampleSignInInput sampleWorld) \<and>
   userVisible (signUp sampleExternals (failingBackend 400 ''x'') sampleSignInInput sampleWorld) \<and>
   userVisible (changeCustomerPassword (failingBackend 503 ''x'') [] sampleWorldSignedIn) \<and>
   userVisible (applyCoupon sampleExternals (failingBackend 404 ''x'') [(''couponCode'', JStr ''SALE'')]
                  sampleWorldWithCart) \<and>
   userVisible (placeOrder sampleExternals (failingBackend 400 ''x'') [] sampleWorldWithCart) \<and>
   userVisible (addToCart sampleExternals (failingBackend 400 ''We don't have as many items as you requested.'')
                  sampleCartInput sampleWorldWithCart) \<and>
   \<not> userVisible (addToCart sampleExternals (failingBackend 400 ''x'') sampleCartInput sampleWorldWithCart)"
proof -
  have n: "\<not> userMessage (httpError status msg)" for status msg by (simp add: httpError_def)
  have f: "failingBackend status msg history rq = Inl (Thrown (httpError status msg))" for status msg history rq
    by (simp add: failingBackend_def)
  have c: "cart (session sampleWorldWithCart) = Some \<lparr>quoteId = JStr ''q1''\<rparr> \<and>
           truthy (quoteId \<lparr>quoteId = JStr ''q1''\<rparr>) \<and>
           getCartPath sampleExternals sampleWorldWithCart = Inr ''/guest-carts/q1''"
    by (simp add: world_eval)
  have t: "truthy (sessionToken (session sampleWorldSignedIn))" by (simp add: world_eval)
  have e: "ensureCart be sampleWorldWithCart = (Inr \<lparr>quoteId = JStr ''q1''\<rparr>, sampleWorldWithCart)" for be
    by (simp add: ensureCart_def world_eval)
  have b: "addToCartProduct sampleCartInput \<lparr>quoteId = JStr ''q1''\<rparr> =
             Inr (JObj [(''cart_item'', JObj [(''sku'', JStr ''A1''), (''qty'', JNum 1), (''quote_id'', JStr ''q1'')])])"
    by (simp add: addToCartProduct_def world_eval)
  have 1: "userVisible (signIn sampleExternals (failingBackend 401 ''x'') sampleSignInInput sampleWorld)"
    using error_marking_by_status [OF n, where be = "failingBackend 401 ''x''" and w = sampleWorld
        and input = sampleSignInInput and X = sampleExternals and status1 = 401 and msg1 = "''x''"] f
    by (simp add: httpError_def)
  have 2: "userVisible (signUp sampleExternals (failingBackend 400 ''x'') sampleSignInInput sampleWorld)"
    using error_marking_by_status [OF n, where be = "failingBackend 400 ''x''" and w = sampleWorld
        and input = sampleSignInInput and X = sampleExternals and status1 = 400 and msg1 = "''x''"] f
    by (simp add: httpError_def)
  have 3: "userVisible (changeCustomerPassword (failingBackend 503 ''x'') [] sampleWorldSignedIn)"
    using error_marking_by_status [OF n, where be = "failingBackend 503 ''x''" and w = sampleWorldSignedIn
        and input = "[]" and X = sampleExternals and status1 = 503 and msg1 = "''x''"] f t
    by (simp add: httpError_def)
  have 4: "userVisible (applyCoupon sampleExternals (failingBackend 404 ''x'') [(''couponCode'', JStr ''SALE'')]
                  sampleWorldWithCart)"
    using error_marking_by_status [OF n, where be = "failingBackend 404 ''x''" and w = sampleWorldWithCart
        and input = "[(''couponCode'', JStr ''SALE'')]" and X = sampleExternals
        and status1 = 404 and msg1 = "''x''"] f c
    by (simp add: httpError_def)
  have 5: "userVisible (placeOrder sampleExternals (failingBackend 400 ''x'') [] sampleWorldWithCart)"
    using error_marking_by_status [OF n, where be = "failingBackend 400 ''x''" and w = sampleWorldWithCart
        and input = "[]" and X = sampleExternals and status1 = 400 and msg1 = "''x''"] f c
    by (simp add: httpError_def)
  have 6: "userVisible (addToCart sampleExternals (failingBackend 400 ''We don't have as many items as you requested.'')
                  sampleCartInput sampleWorldWithCart)"
    using error_marking_by_status [OF n, where be = "failingBackend 400 ''We don't have as many items as you requested.''"
        and w = sampleWorldWithCart and input = sampleCartInput and X = sampleExternals
        and status1 = 400 and msg1 = "''We don't have as many items as you requested.''"] f e b c
    by (simp add: httpError_def startsWith_def)
  have 7: "\<not> userVisible (addToCart sampleExternals (failingBackend 400 ''x'') sampleCartInput sampleWorldWithCart)"
    using error_marking_by_status [OF n, where be = "failingBackend 400 ''x''"
        and w = sampleWorldWithCart and input = sampleCartInput and X = sampleExternals
        and status1 = 400 and msg1 = "''x''"] f e b c
    by (simp add: httpError_def startsWith_def)
  from 1 2 3 4 5 6 7 show ?thesis by simp
qed

subsection \<open>The session fields the handlers use\<close>


































end
